theory Spec2Isabelle
  imports Main "HOL-Library.AList"
begin

section \<open>The router generator of prisma-trpc-generator\<close>

text \<open>
  A shallow embedding of \<^verbatim>\<open>generate\<close> (src/prisma-generator.ts). The function is one
  long asynchronous procedure; the model follows it top to bottom and keeps its local
  names. What the procedure does to the outside world is made explicit:
  \<^item> a thrown exception is a value \<open>Inl e\<close> of the result;
  \<^item> calls that act on the host (directory creation and clearing, the two delegate
    generators, \<^verbatim>\<open>project.save()\<close>) are appended to an effect log, in call order;
  \<^item> a source file of the ts-morph project is the list of builder calls made on it, in
    call order (the rendering of a call into text belongs to ts-morph and to
    helpers.ts, which are not part of the source under verification);
  \<^item> the module-wide \<^verbatim>\<open>project\<close> singleton is a store from paths to source files that
    \<^verbatim>\<open>generate\<close> receives and returns.
\<close>

subsection \<open>JavaScript values and strings\<close>

text \<open>
  The values a parsed configuration flag can hold. The source tests \<^verbatim>\<open>withShield\<close> both
  for truthiness (\<^verbatim>\<open>if (config.withShield)\<close>) and for strict equality with \<^verbatim>\<open>true\<close>
  (\<^verbatim>\<open>config.withShield === true\<close>) and hands its value on to
  \<^verbatim>\<open>generateShieldImport\<close>, so the flag is kept as a JavaScript value.
\<close>

datatype jsval = JUndefined | JBool bool | JStr string

fun truthy :: "jsval \<Rightarrow> bool" where
  "truthy JUndefined = False"
| "truthy (JBool b) = b"
| "truthy (JStr s) = (s \<noteq> [])"

text \<open>
  \<^verbatim>\<open>s.replace(pat, rep)\<close> with a string pattern: the first occurrence of \<open>pat\<close> is
  replaced, the rest of \<open>s\<close> is kept. (The source only ever replaces by the empty string,
  so the dollar patterns of a replacement string do not arise.)
\<close>

fun replace :: "string \<Rightarrow> string \<Rightarrow> string \<Rightarrow> string" where
  "replace pat rep [] = (if pat = [] then rep else [])"
| "replace pat rep (c # cs) =
     (if take (length pat) (c # cs) = pat then rep @ drop (length pat) (c # cs)
      else c # replace pat rep cs)"

text \<open>
  \<^verbatim>\<open>s.toLowerCase()\<close> on the letters A to Z. Prisma model names are ASCII identifiers,
  so no other upper-case letter reaches the generator.
\<close>

definition toLowerCase_char :: "char \<Rightarrow> char" where
  "toLowerCase_char c =
     (case map_of (zip ''ABCDEFGHIJKLMNOPQRSTUVWXYZ'' ''abcdefghijklmnopqrstuvwxyz'') c of
        None \<Rightarrow> c
      | Some l \<Rightarrow> l)"

definition toLowerCase :: "string \<Rightarrow> string" where
  "toLowerCase s = map toLowerCase_char s"

text \<open>An array inside a template literal is rendered by \<^verbatim>\<open>Array.prototype.join\<close>.\<close>

fun join :: "string \<Rightarrow> string list \<Rightarrow> string" where
  "join sep [] = []"
| "join sep [x] = x"
| "join sep (x # y # ys) = x @ sep @ join sep (y # ys)"

subsection \<open>Input: generator options, configuration, DMMF\<close>

record EnvValue =
  fromEnvVar :: "string option"
  val :: string

record GeneratorConfig =
  generatorOutput :: EnvValue
  config :: "(string \<times> string) list"
  provider :: EnvValue
  previewFeatures :: "string list"

record GeneratorOptions =
  generator :: GeneratorConfig
  otherGenerators :: "GeneratorConfig list"
  datamodel :: string
  schemaPath :: string

text \<open>
  The parsed configuration, \<^verbatim>\<open>results.data\<close>. Its schema (config.ts) is not part of the
  source; the fields are the ones \<^verbatim>\<open>generate\<close> reads.
\<close>

record Config =
  withZod :: jsval
  withShield :: jsval
  contextPath :: string
  generateModelActions :: "string list"
  emitterPath :: string

text \<open>
  One element of \<^verbatim>\<open>prismaClientDmmf.mappings.modelOperations\<close>: the model name and the
  remaining properties of the object (\<^verbatim>\<open>const { model, ...operations } = modelOperation\<close>)
  in property order. A property value is a string, or \<^verbatim>\<open>null\<close>/\<^verbatim>\<open>undefined\<close> (\<open>None\<close>).
\<close>

record ModelMapping =
  model :: string
  operations :: "(string \<times> string option) list"

record Model =
  name :: string
  documentation :: "string option"

record Document =
  modelOperations :: "ModelMapping list"
  models :: "Model list"

subsection \<open>Output: errors, effects, source files\<close>

datatype error = Error string | TypeError string

datatype effect =
    Mkdir string
  | RemoveDir string bool
  | PrismaZodGenerator
  | PrismaTrpcShieldGenerator "string list" string
  | ProjectSave

text \<open>The permission matrix: three objects, each with its properties in insertion order.\<close>

record ShieldConfig =
  query :: "(string \<times> string) list"
  mutation :: "(string \<times> string) list"
  subscription :: "(string \<times> string) list"

text \<open>
  The builder calls \<^verbatim>\<open>generate\<close> makes on a source file. A helper of helpers.ts is a
  constructor that carries the arguments of the call, without the run-wide \<^verbatim>\<open>config\<close> and
  \<^verbatim>\<open>options\<close> objects, which are the same at every call of one run:
  \<^item> \<open>CreateRouterImport c\<close>: \<^verbatim>\<open>generateCreateRouterImport\<close>, \<open>c\<close> telling whether
    \<^verbatim>\<open>config\<close> was passed;
  \<^item> \<open>RouterImport plural model\<close>: \<^verbatim>\<open>generateRouterImport(appRouter, plural, model)\<close>;
  \<^item> \<open>Procedure opNameWithModel inputType model opType baseOpType\<close>:
    \<^verbatim>\<open>generateProcedure\<close>, one endpoint of a router;
  \<^item> \<open>Statements text\<close>: \<^verbatim>\<open>addStatements\<close>, with the layout whitespace of the template
    literal (which \<^verbatim>\<open>formatText\<close> rewrites) left out;
  \<^item> \<open>ShieldHeader contextImport\<close> and \<open>Permissions shieldConfig\<close>: the two
    \<^verbatim>\<open>addStatements\<close> calls on the shield file, the first importing \<^verbatim>\<open>Context\<close> from
    \<open>contextImport\<close>, the second exporting \<^verbatim>\<open>shield<Context>(...)\<close> of the JSON text of
    \<open>shieldConfig\<close>.
\<close>

datatype stmt =
    TRPCImport
  | ShieldImport jsval
  | BaseRouter
  | CreateRouterImport bool
  | RouterImport string string
  | RouterSchemaImports string "string list"
  | ImportDeclaration string "string list"
  | Procedure string string string string string
  | Statements string
  | ShieldHeader string
  | Permissions ShieldConfig
  | FormatText nat

type_synonym path = "string list"
type_synonym sourceFile = "stmt list"
type_synonym project = "path \<Rightarrow> sourceFile option"

text \<open>
  A path is the argument list of \<^verbatim>\<open>path.resolve\<close> or \<^verbatim>\<open>path.join\<close>.
\<close>

subsection \<open>The collaborators of \<^verbatim>\<open>generate\<close>\<close>

text \<open>
  What \<^verbatim>\<open>generate\<close> imports from other packages and modules and uses for its result:
  \<^verbatim>\<open>parseEnvValue\<close> and \<^verbatim>\<open>getDMMF\<close> (@prisma/internals), \<^verbatim>\<open>configSchema.safeParse\<close>
  (config.ts), \<^verbatim>\<open>pluralize\<close>, \<^verbatim>\<open>getInputTypeByOpName\<close> (helpers.ts) and
  \<^verbatim>\<open>getRelativePath\<close> (utils). \<open>fails\<close> tells which host action raises, and what;
  \<open>hasHideMarker\<close> recognises the hide marker in a documentation comment.
\<close>

record Env =
  parseEnvValue :: "EnvValue \<Rightarrow> error + string"
  safeParse :: "(string \<times> string) list \<Rightarrow> Config option"
  fails :: "effect \<Rightarrow> error option"
  getDMMF :: "string \<Rightarrow> string list \<Rightarrow> error + Document"
  hasHideMarker :: "string \<Rightarrow> bool"
  pluralize :: "string \<Rightarrow> string"
  getInputTypeByOpName :: "string \<Rightarrow> string \<Rightarrow> string"
  getRelativePath :: "string \<Rightarrow> string \<Rightarrow> bool \<Rightarrow> string \<Rightarrow> string"

text \<open>
  Modelled from the spec: \<^verbatim>\<open>resolveModelsComments\<close> (helpers.ts) is missing from the
  source. The spec: an entity is hidden iff its documentation comment contains a
  recognized hide-marker token; an absent comment means visible. The names of the
  hidden models are pushed to \<^verbatim>\<open>hiddenModels\<close> in model order.
\<close>

definition resolveModelsComments :: "Env \<Rightarrow> Model list \<Rightarrow> string list" where
  "resolveModelsComments env ms =
     map name (filter (\<lambda>m. case documentation m of None \<Rightarrow> False
                                 | Some d \<Rightarrow> hasHideMarker env d) ms)"

subsection \<open>Running with exceptions and an effect log\<close>

type_synonym 'a run = "effect list \<times> (error + 'a)"

definition return :: "'a \<Rightarrow> 'a run" where
  "return a = ([], Inr a)"

definition throw :: "error \<Rightarrow> 'a run" where
  "throw e = ([], Inl e)"

definition bind :: "'a run \<Rightarrow> ('a \<Rightarrow> 'b run) \<Rightarrow> 'b run" where
  "bind m f =
     (case m of
        (es, Inl e) \<Rightarrow> (es, Inl e)
      | (es, Inr a) \<Rightarrow> (case f a of (es', r) \<Rightarrow> (es @ es', r)))"

definition lift :: "error + 'a \<Rightarrow> 'a run" where
  "lift r = ([], r)"

definition perform :: "Env \<Rightarrow> effect \<Rightarrow> unit run" where
  "perform env eff = ([eff], case fails env eff of None \<Rightarrow> Inr () | Some e \<Rightarrow> Inl e)"

subsection \<open>The program\<close>

text \<open>
  Lines 55 to 57: \<^verbatim>\<open>options.otherGenerators.find(...)\<close>, with \<^verbatim>\<open>parseEnvValue\<close> called on
  each provider until one is \<^verbatim>\<open>prisma-client-js\<close>.
\<close>

fun findProvider :: "Env \<Rightarrow> GeneratorConfig list \<Rightarrow> error + GeneratorConfig option" where
  "findProvider env [] = Inr None"
| "findProvider env (it # rest) =
     (case parseEnvValue env (provider it) of
        Inl e \<Rightarrow> Inl e
      | Inr p \<Rightarrow> if p = ''prisma-client-js'' then Inr (Some it) else findProvider env rest)"

text \<open>Lines 68 to 83: the bootstrap file.\<close>

definition createRouter :: "Config \<Rightarrow> sourceFile" where
  "createRouter cfg =
     [TRPCImport]
     @ (if truthy (withShield cfg) then [ShieldImport (withShield cfg)] else [])
     @ [BaseRouter, FormatText 2]"

text \<open>Lines 101 to 106: the operations of one model that the allow-list keeps.\<close>

definition modelActions :: "Config \<Rightarrow> ModelMapping \<Rightarrow> string list" where
  "modelActions cfg mo =
     filter (\<lambda>opType. replace ''One'' '''' opType \<in> set (generateModelActions cfg))
            (map fst (operations mo))"

text \<open>
  Line 150: \<^verbatim>\<open>operations[opType] || opType\<close>. A missing property, \<^verbatim>\<open>null\<close>, \<^verbatim>\<open>undefined\<close>
  and the empty string are falsy.
\<close>

definition opNameWithModel :: "ModelMapping \<Rightarrow> string \<Rightarrow> string" where
  "opNameWithModel mo opType =
     (case map_of (operations mo) opType of
        Some (Some n) \<Rightarrow> if n = [] then opType else n
      | _ \<Rightarrow> opType)"

definition subscriptionOperations :: "string list" where
  "subscriptionOperations = [''create'', ''update'', ''delete'']"

text \<open>Lines 149 to 163 and 167 to 177: the two loops over \<^verbatim>\<open>generateProcedure\<close>.\<close>

definition dispatchProcedure :: "Env \<Rightarrow> ModelMapping \<Rightarrow> string \<Rightarrow> stmt" where
  "dispatchProcedure env mo opType =
     (let baseOpType = replace ''OrThrow'' '''' opType
      in Procedure (opNameWithModel mo opType)
           (getInputTypeByOpName env baseOpType (model mo)) (model mo) opType baseOpType)"

definition subscriptionProcedure :: "ModelMapping \<Rightarrow> string \<Rightarrow> stmt" where
  "subscriptionProcedure mo event =
     Procedure event '''' (model mo) (''subscription:'' @ event) event"

text \<open>Lines 113 to 182: the router file of one model.\<close>

definition modelRouter :: "Env \<Rightarrow> Config \<Rightarrow> ModelMapping \<Rightarrow> sourceFile" where
  "modelRouter env cfg mo =
     (let plural = pluralize env (toLowerCase (model mo))
      in [CreateRouterImport True]
         @ (if truthy (withZod cfg)
            then [RouterSchemaImports (model mo) (modelActions cfg mo)] else [])
         @ [ImportDeclaration ''@prisma/client'' [model mo],
            ImportDeclaration ''@trpc/server/observable'' [''observable''],
            ImportDeclaration (''../.'' @ emitterPath cfg) [''ee''],
            Statements (''export const '' @ plural @ ''Router = t.router({'')]
         @ map (dispatchProcedure env mo) (modelActions cfg mo)
         @ map (subscriptionProcedure mo) subscriptionOperations
         @ [Statements ''})'', FormatText 2])"

text \<open>
  Lines 97 to 185: the loop over the model operations. Its state is what the loop
  changes: the aggregate file \<^verbatim>\<open>appRouter\<close>, the router files created so far, and
  \<^verbatim>\<open>routerStatements\<close>.
\<close>

record loopState =
  appRouter :: sourceFile
  routers :: "(path \<times> sourceFile) list"
  routerStatements :: "string list"

fun modelLoop ::
  "Env \<Rightarrow> Config \<Rightarrow> string \<Rightarrow> string list \<Rightarrow> ModelMapping list \<Rightarrow> loopState \<Rightarrow> loopState"
where
  "modelLoop env cfg outputDir hiddenModels [] st = st"
| "modelLoop env cfg outputDir hiddenModels (mo # rest) st =
     (if model mo \<in> set hiddenModels then modelLoop env cfg outputDir hiddenModels rest st
      else if modelActions cfg mo = [] then modelLoop env cfg outputDir hiddenModels rest st
      else
        let plural = pluralize env (toLowerCase (model mo))
        in modelLoop env cfg outputDir hiddenModels rest
             \<lparr>appRouter = appRouter st @ [RouterImport plural (model mo)],
              routers = routers st
                @ [([outputDir, ''routers'', model mo @ ''.router.ts''], modelRouter env cfg mo)],
              routerStatements = routerStatements st
                @ [toLowerCase (model mo) @ '': '' @ plural @ ''Router'']\<rparr>)"

text \<open>
  Lines 205 to 242: the permission matrix. \<^verbatim>\<open>obj[key] = 'allow'\<close> keeps the place of a
  property that exists and appends a new one, which is \<open>AList.update\<close>.
\<close>

definition allowAll :: "string list \<Rightarrow> string \<Rightarrow> (string \<times> string) list \<Rightarrow> (string \<times> string) list" where
  "allowAll ops m bucket = foldl (\<lambda>b op. AList.update (op @ m) ''allow'' b) bucket ops"

definition queryOperations :: "string list" where
  "queryOperations = [''aggregate'', ''findFirst'', ''findMany'', ''findUnique'', ''groupBy'']"

definition mutationOperations :: "string list" where
  "mutationOperations =
     [''createOne'', ''deleteMany'', ''deleteOne'', ''updateMany'', ''updateOne'', ''upsertOne'']"

fun shieldLoop :: "ModelMapping list \<Rightarrow> ShieldConfig \<Rightarrow> ShieldConfig" where
  "shieldLoop [] sc = sc"
| "shieldLoop (mo # rest) sc =
     shieldLoop rest
       \<lparr>query = allowAll queryOperations (model mo) (query sc),
        mutation = allowAll mutationOperations (model mo) (mutation sc),
        subscription = allowAll subscriptionOperations (model mo) (subscription sc)\<rparr>"

definition shieldConfig :: "Document \<Rightarrow> ShieldConfig" where
  "shieldConfig dmmf =
     shieldLoop (modelOperations dmmf) \<lparr>query = [], mutation = [], subscription = []\<rparr>"

text \<open>Lines 188 to 253: the policy file.\<close>

definition shieldFile :: "Env \<Rightarrow> GeneratorOptions \<Rightarrow> Config \<Rightarrow> string \<Rightarrow> Document \<Rightarrow> sourceFile" where
  "shieldFile env options cfg outputDir dmmf =
     [ShieldHeader (getRelativePath env outputDir (contextPath cfg) False (schemaPath options)),
      Permissions (shieldConfig dmmf),
      FormatText 2]"

text \<open>
  Lines 64 to 259: the source files \<^verbatim>\<open>generate\<close> creates, in the order of their
  \<^verbatim>\<open>createSourceFile\<close> calls, each with its final content.
\<close>

definition sourceFiles ::
  "Env \<Rightarrow> GeneratorOptions \<Rightarrow> Config \<Rightarrow> string \<Rightarrow> Document \<Rightarrow> (path \<times> sourceFile) list"
where
  "sourceFiles env options cfg outputDir dmmf =
     (let hiddenModels = resolveModelsComments env (models dmmf);
          st = modelLoop env cfg outputDir hiddenModels (modelOperations dmmf)
                 \<lparr>appRouter = [CreateRouterImport False], routers = [], routerStatements = []\<rparr>
      in [([outputDir, ''routers'', ''helpers'', ''createRouter.ts''], createRouter cfg),
          ([outputDir, ''routers'', ''index.ts''],
           appRouter st
           @ [Statements (''export const appRouter = t.router({''
                          @ join '','' (routerStatements st) @ ''})''),
              FormatText 2])]
         @ routers st
         @ (if truthy (withShield cfg)
            then [([outputDir, ''shield'', ''shield.ts''],
                   shieldFile env options cfg outputDir dmmf)]
            else []))"

text \<open>
  \<^verbatim>\<open>project.createSourceFile(path, undefined, { overwrite: true })\<close>: the file at \<open>path\<close>
  replaces whatever the project held there.
\<close>

definition createSourceFiles :: "project \<Rightarrow> (path \<times> sourceFile) list \<Rightarrow> project" where
  "createSourceFiles proj files = foldl (\<lambda>p (k, f). p(k \<mapsto> f)) proj files"

text \<open>
  Lines 24 to 261. The result is the effect log and either the exception thrown or the
  project after the run.
\<close>

definition generate :: "Env \<Rightarrow> GeneratorOptions \<Rightarrow> project \<Rightarrow> project run" where
  "generate env options proj =
     bind (lift (parseEnvValue env (generatorOutput (generator options)))) (\<lambda>outputDir.
     case safeParse env (config (generator options)) of
       None \<Rightarrow> throw (Error ''Invalid options passed'')
     | Some cfg \<Rightarrow>
     bind (perform env (Mkdir outputDir)) (\<lambda>_.
     bind (perform env (RemoveDir outputDir True)) (\<lambda>_.
     bind (if truthy (withZod cfg) then perform env PrismaZodGenerator else return ()) (\<lambda>_.
     bind (if withShield cfg = JBool True
           then perform env (PrismaTrpcShieldGenerator [outputDir, ''./shield''] (contextPath cfg))
           else return ()) (\<lambda>_.
     bind (lift (findProvider env (otherGenerators options))) (\<lambda>prismaClientProvider.
     case prismaClientProvider of
       None \<Rightarrow> throw (TypeError ''Cannot read properties of undefined'')
     | Some g \<Rightarrow>
     bind (lift (getDMMF env (datamodel options) (previewFeatures g))) (\<lambda>prismaClientDmmf.
     bind (perform env ProjectSave) (\<lambda>_.
     return (createSourceFiles proj
               (sourceFiles env options cfg outputDir prismaClientDmmf))))))))))"

subsection \<open>Vocabulary for the properties\<close>

text \<open>
  The input of a run resolves to \<open>outputDir\<close>, \<open>cfg\<close> and \<open>dmmf\<close>: the output path and the
  configuration parse, a \<^verbatim>\<open>prisma-client-js\<close> generator is declared, and the schema has
  the DMMF \<open>dmmf\<close>.
\<close>

definition reads :: "Env \<Rightarrow> GeneratorOptions \<Rightarrow> string \<Rightarrow> Config \<Rightarrow> Document \<Rightarrow> bool" where
  "reads env options outputDir cfg dmmf =
     (parseEnvValue env (generatorOutput (generator options)) = Inr outputDir
      \<and> safeParse env (config (generator options)) = Some cfg
      \<and> (case findProvider env (otherGenerators options) of
            Inr (Some g) \<Rightarrow> getDMMF env (datamodel options) (previewFeatures g) = Inr dmmf
          | _ \<Rightarrow> False))"

text \<open>The effect log of a run that reaches its end.\<close>

definition effectLog :: "string \<Rightarrow> Config \<Rightarrow> effect list" where
  "effectLog outputDir cfg =
     [Mkdir outputDir, RemoveDir outputDir True]
     @ (if truthy (withZod cfg) then [PrismaZodGenerator] else [])
     @ (if withShield cfg = JBool True
        then [PrismaTrpcShieldGenerator [outputDir, ''./shield''] (contextPath cfg)] else [])
     @ [ProjectSave]"

text \<open>
  A model operation passes both \<^verbatim>\<open>continue\<close> guards of the loop (lines 99 and 108): its
  model is not hidden and the allow-list keeps at least one of its operations.
\<close>

definition emitted :: "Config \<Rightarrow> string list \<Rightarrow> ModelMapping \<Rightarrow> bool" where
  "emitted cfg hiddenModels mo = (model mo \<notin> set hiddenModels \<and> modelActions cfg mo \<noteq> [])"

text \<open>What one passing iteration adds to the aggregate file, and where its router goes.\<close>

definition routerImport :: "Env \<Rightarrow> ModelMapping \<Rightarrow> stmt" where
  "routerImport env mo = RouterImport (pluralize env (toLowerCase (model mo))) (model mo)"

definition routerEntry :: "Env \<Rightarrow> ModelMapping \<Rightarrow> string" where
  "routerEntry env mo =
     toLowerCase (model mo) @ '': '' @ pluralize env (toLowerCase (model mo)) @ ''Router''"

definition routerPath :: "string \<Rightarrow> string \<Rightarrow> path" where
  "routerPath outputDir m = [outputDir, ''routers'', m @ ''.router.ts'']"

definition aggregateFile :: "Env \<Rightarrow> ModelMapping list \<Rightarrow> sourceFile" where
  "aggregateFile env kept =
     [CreateRouterImport False] @ map (routerImport env) kept
     @ [Statements (''export const appRouter = t.router({''
                    @ join '','' (map (routerEntry env) kept) @ ''})''),
        FormatText 2]"

text \<open>The endpoints of a router file, and the name of an endpoint.\<close>

fun isProcedure :: "stmt \<Rightarrow> bool" where
  "isProcedure (Procedure _ _ _ _ _) = True"
| "isProcedure _ = False"

fun procedureName :: "stmt \<Rightarrow> string" where
  "procedureName (Procedure n _ _ _ _) = n"
| "procedureName _ = []"

text \<open>
  A bucket of the permission matrix holds one entry for each operation of \<open>ops\<close> and each
  model operation of \<open>mos\<close>, named by the operation followed by the model name and mapped
  to \<^verbatim>\<open>allow\<close>, and nothing else; no property name occurs twice.
\<close>

definition allAllow :: "(string \<times> string) list \<Rightarrow> bool" where
  "allAllow bucket = (\<forall>e \<in> set bucket. snd e = ''allow'')"

definition bucketOf :: "string list \<Rightarrow> ModelMapping list \<Rightarrow> (string \<times> string) list \<Rightarrow> bool" where
  "bucketOf ops mos bucket =
     (set bucket = {(op @ model mo, ''allow'') | op mo. op \<in> set ops \<and> mo \<in> set mos}
      \<and> distinct (map fst bucket))"

subsection \<open>An example schema\<close>

text \<open>
  Modelled from the spec: the \<^verbatim>\<open>pluralize\<close> package is an external dependency, missing
  from the source. The example runs below use the two plurals the spec fixes (Person to
  people, Category to categories) and the regular suffix for every other word.
\<close>

definition pluralize_en :: "string \<Rightarrow> string" where
  "pluralize_en w =
     (if w = ''person'' then ''people''
      else if w = ''category'' then ''categories''
      else w @ ''s'')"

text \<open>
  An environment in which no host action fails: the configuration parses to \<open>parsed\<close>,
  the schema to \<open>dmmf\<close>.
\<close>

definition exampleEnv :: "Config option \<Rightarrow> Document \<Rightarrow> Env" where
  "exampleEnv parsed dmmf =
     \<lparr>parseEnvValue = (\<lambda>v. Inr (val v)),
      safeParse = (\<lambda>_. parsed),
      fails = (\<lambda>_. None),
      getDMMF = (\<lambda>_ _. Inr dmmf),
      hasHideMarker = (\<lambda>d. d = ''@@Gen.model(hide: true)''),
      pluralize = pluralize_en,
      getInputTypeByOpName = (\<lambda>baseOpType m. m @ ''.'' @ baseOpType),
      getRelativePath = (\<lambda>_ p _ _. p)\<rparr>"

definition exampleClient :: GeneratorConfig where
  "exampleClient =
     \<lparr>generatorOutput = \<lparr>fromEnvVar = None, val = ''client''\<rparr>, config = [],
      provider = \<lparr>fromEnvVar = None, val = ''prisma-client-js''\<rparr>, previewFeatures = []\<rparr>"

definition exampleOptions :: GeneratorOptions where
  "exampleOptions =
     \<lparr>generator =
        \<lparr>generatorOutput = \<lparr>fromEnvVar = None, val = ''out''\<rparr>, config = [],
         provider = \<lparr>fromEnvVar = None, val = ''prisma-trpc-generator''\<rparr>,
         previewFeatures = []\<rparr>,
      otherGenerators = [exampleClient],
      datamodel = ''schema'',
      schemaPath = ''schema.prisma''\<rparr>"

definition exampleConfig :: "jsval \<Rightarrow> string list \<Rightarrow> Config" where
  "exampleConfig shield allowList =
     \<lparr>withZod = JBool False, withShield = shield, contextPath = ''../context'',
      generateModelActions = allowList, emitterPath = ''./emitter''\<rparr>"

definition person :: ModelMapping where
  "person =
     \<lparr>model = ''Person'',
      operations =
        [(''findUnique'', Some ''findUniquePerson''),
         (''findUniqueOrThrow'', Some ''findUniquePersonOrThrow''),
         (''createOne'', Some ''createOnePerson''),
         (''count'', None)]\<rparr>"

definition secret :: ModelMapping where
  "secret = \<lparr>model = ''Secret'', operations = [(''findMany'', Some ''findManySecret'')]\<rparr>"

definition order :: ModelMapping where
  "order = \<lparr>model = ''Order'', operations = [(''findMany'', Some ''findManyOrder'')]\<rparr>"

definition exampleSchema :: Document where
  "exampleSchema =
     \<lparr>modelOperations = [person, secret],
      models = [\<lparr>name = ''Person'', documentation = None\<rparr>,
                \<lparr>name = ''Secret'', documentation = Some ''@@Gen.model(hide: true)''\<rparr>]\<rparr>"

definition orderSchema :: Document where
  "orderSchema =
     \<lparr>modelOperations = [order], models = [\<lparr>name = ''Order'', documentation = None\<rparr>]\<rparr>"

text \<open>A configuration whose \<^verbatim>\<open>withShield\<close> is a path, not a boolean.\<close>

definition shieldByPath :: Config where
  "shieldByPath = exampleConfig (JStr ''./shield'') [''findUnique'']"

text \<open>A fresh process: the project holds no source file.\<close>

definition emptyProject :: project where
  "emptyProject = Map.empty"

text \<open>Policy generation switched on by the boolean \<^verbatim>\<open>true\<close>.\<close>

definition shieldOn :: Config where
  "shieldOn = exampleConfig (JBool True) [''findMany'']"

text \<open>An allow-list that keeps some of the operations of \<open>person\<close>.\<close>

definition allowSome :: Config where
  "allowSome = exampleConfig (JBool False) [''findUnique'', ''create'', ''count'']"

text \<open>An allow-list that keeps none of the operations of \<open>order\<close>.\<close>

definition allowCreate :: Config where
  "allowCreate = exampleConfig (JBool False) [''create'']"

text \<open>Policy generation on, and an allow-list that keeps operations of both entities.\<close>

definition shieldAll :: Config where
  "shieldAll = exampleConfig (JBool True) [''findUnique'', ''findMany'']"

text \<open>An allow-list with the base kind \<^verbatim>\<open>findUnique\<close> only.\<close>

definition allowFindUnique :: Config where
  "allowFindUnique = exampleConfig (JBool False) [''findUnique'']"

text \<open>A project that already holds a stale router file for Person.\<close>

definition staleProject :: project where
  "staleProject = emptyProject([''out'', ''routers'', ''Person.router.ts''] \<mapsto> [FormatText 4])"

section \<open>Auxiliary facts\<close>

lemmas run_defs = generate_def bind_def lift_def return_def throw_def perform_def

lemma createSourceFiles_lookup:
  "createSourceFiles proj files k = (case map_of (rev files) k of None \<Rightarrow> proj k | Some f \<Rightarrow> Some f)"
  unfolding createSourceFiles_def
  by (induction files arbitrary: proj) (auto split: option.splits simp: map_add_def)

lemma modelLoop_filter:
  "modelLoop env cfg outputDir hiddenModels mos st =
     \<lparr>appRouter = appRouter st @ map (routerImport env) (filter (emitted cfg hiddenModels) mos),
      routers = routers st
        @ map (\<lambda>mo. (routerPath outputDir (model mo), modelRouter env cfg mo))
            (filter (emitted cfg hiddenModels) mos),
      routerStatements = routerStatements st
        @ map (routerEntry env) (filter (emitted cfg hiddenModels) mos)\<rparr>"
  by (induction mos arbitrary: st)
     (simp_all add: emitted_def routerImport_def routerEntry_def routerPath_def Let_def)

lemma sourceFiles_eq:
  "sourceFiles env options cfg outputDir dmmf =
     [([outputDir, ''routers'', ''helpers'', ''createRouter.ts''], createRouter cfg),
      ([outputDir, ''routers'', ''index.ts''],
       aggregateFile env
         (filter (emitted cfg (resolveModelsComments env (models dmmf))) (modelOperations dmmf)))]
     @ map (\<lambda>mo. (routerPath outputDir (model mo), modelRouter env cfg mo))
         (filter (emitted cfg (resolveModelsComments env (models dmmf))) (modelOperations dmmf))
     @ (if truthy (withShield cfg)
        then [([outputDir, ''shield'', ''shield.ts''], shieldFile env options cfg outputDir dmmf)]
        else [])"
  by (simp add: sourceFiles_def modelLoop_filter aggregateFile_def Let_def)

lemma routerPath_neq:
  "routerPath outputDir m \<noteq> [outputDir, ''routers'', ''index.ts'']"
  "routerPath outputDir m \<noteq> [outputDir, ''routers'', ''helpers'', ''createRouter.ts'']"
  "routerPath outputDir m \<noteq> [outputDir, ''shield'', ''shield.ts'']"
proof -
  have "length (m @ ''.router.ts'') \<noteq> length ''index.ts''" by simp
  then have "m @ ''.router.ts'' \<noteq> ''index.ts''" by metis
  then show "routerPath outputDir m \<noteq> [outputDir, ''routers'', ''index.ts'']"
    by (simp add: routerPath_def)
qed (simp_all add: routerPath_def)

lemma routerPath_inj: "routerPath outputDir m = routerPath outputDir m' \<longleftrightarrow> m = m'"
  by (simp add: routerPath_def)

lemma map_of_routers_None:
  "\<forall>mo \<in> set kept. model mo \<noteq> m \<Longrightarrow>
   map_of (rev (map (\<lambda>mo. (routerPath outputDir (model mo), f mo)) kept)) (routerPath outputDir m) = None"
  by (auto simp: map_of_eq_None_iff routerPath_inj image_iff)

lemma map_of_routers_Some:
  assumes "distinct (map model kept)" and "mo \<in> set kept"
  shows "map_of (rev (map (\<lambda>mo. (routerPath outputDir (model mo), f mo)) kept))
           (routerPath outputDir (model mo)) = Some (f mo)"
proof -
  let ?xs = "rev (map (\<lambda>mo. (routerPath outputDir (model mo), f mo)) kept)"
  have "map fst ?xs = rev (map (routerPath outputDir) (map model kept))"
    by (simp add: rev_map comp_def)
  moreover have "inj (routerPath outputDir)"
    by (simp add: inj_def routerPath_inj)
  ultimately have "distinct (map fst ?xs)"
    using assms(1) by (auto simp: distinct_map inj_on_def routerPath_inj)
  moreover have "(routerPath outputDir (model mo), f mo) \<in> set ?xs"
    using assms(2) by auto
  ultimately show ?thesis by simp
qed

lemma map_of_routers_other:
  "length k \<noteq> 3 \<or> k ! 1 \<noteq> ''routers'' \<or> k = [outputDir, ''routers'', ''index.ts''] \<Longrightarrow>
   map_of (rev (map (\<lambda>mo. (routerPath outputDir (model mo), f mo)) kept)) k = None"
  using routerPath_neq(1)[of outputDir]
  by (auto simp: map_of_eq_None_iff image_iff routerPath_def)

lemma generate_reads:
  assumes "reads env options outputDir cfg dmmf"
    and "generate env options proj = (effs, Inr proj')"
  shows "proj' = createSourceFiles proj (sourceFiles env options cfg outputDir dmmf)"
    and "effs = effectLog outputDir cfg"
  using assms
  by (auto simp: reads_def effectLog_def generate_def bind_def lift_def return_def throw_def perform_def
      split: option.splits if_splits sum.splits)

lemma generate_Inr_elim:
  assumes "generate env options proj = (effs, Inr proj')"
  obtains outputDir cfg dmmf where "reads env options outputDir cfg dmmf"
    and "\<And>q. generate env options q
           = (effs, Inr (createSourceFiles q (sourceFiles env options cfg outputDir dmmf)))"
  using assms
  by (auto simp: reads_def generate_def bind_def lift_def return_def throw_def perform_def
      split: option.splits if_splits sum.splits)

lemma project_createRouter:
  "createSourceFiles proj (sourceFiles env options cfg outputDir dmmf)
     [outputDir, ''routers'', ''helpers'', ''createRouter.ts''] = Some (createRouter cfg)"
  by (simp add: createSourceFiles_lookup sourceFiles_eq map_add_def map_of_routers_other
      split: option.splits)

lemma project_index:
  "createSourceFiles proj (sourceFiles env options cfg outputDir dmmf)
     [outputDir, ''routers'', ''index.ts'']
   = Some (aggregateFile env
       (filter (emitted cfg (resolveModelsComments env (models dmmf))) (modelOperations dmmf)))"
  by (simp add: createSourceFiles_lookup sourceFiles_eq map_add_def map_of_routers_other
      split: option.splits)

lemma project_shield:
  "createSourceFiles proj (sourceFiles env options cfg outputDir dmmf)
     [outputDir, ''shield'', ''shield.ts'']
   = (if truthy (withShield cfg) then Some (shieldFile env options cfg outputDir dmmf)
      else proj [outputDir, ''shield'', ''shield.ts''])"
  by (simp add: createSourceFiles_lookup sourceFiles_eq map_add_def map_of_routers_other
      split: option.splits)

lemma project_router_Some:
  assumes "distinct (map model (modelOperations dmmf))"
    and "mo \<in> set (modelOperations dmmf)"
    and "emitted cfg (resolveModelsComments env (models dmmf)) mo"
  shows "createSourceFiles proj (sourceFiles env options cfg outputDir dmmf)
           (routerPath outputDir (model mo)) = Some (modelRouter env cfg mo)"
proof -
  let ?kept = "filter (emitted cfg (resolveModelsComments env (models dmmf))) (modelOperations dmmf)"
  have "distinct (map model ?kept)"
    using assms(1) by (simp add: distinct_map_filter)
  moreover have "mo \<in> set ?kept"
    using assms(2,3) by simp
  ultimately have "map_of (rev (map (\<lambda>mo. (routerPath outputDir (model mo), modelRouter env cfg mo)) ?kept))
      (routerPath outputDir (model mo)) = Some (modelRouter env cfg mo)"
    by (rule map_of_routers_Some)
  then show ?thesis
    using routerPath_neq[of outputDir "model mo"]
    by (simp add: createSourceFiles_lookup sourceFiles_eq map_add_def split: option.splits)
qed

lemma project_router_None:
  assumes "\<forall>mo \<in> set (modelOperations dmmf).
             emitted cfg (resolveModelsComments env (models dmmf)) mo \<longrightarrow> model mo \<noteq> m"
  shows "createSourceFiles proj (sourceFiles env options cfg outputDir dmmf)
           (routerPath outputDir m) = proj (routerPath outputDir m)"
proof -
  let ?kept = "filter (emitted cfg (resolveModelsComments env (models dmmf))) (modelOperations dmmf)"
  have "map_of (rev (map (\<lambda>mo. (routerPath outputDir (model mo), modelRouter env cfg mo)) ?kept))
      (routerPath outputDir m) = None"
    using assms by (intro map_of_routers_None) simp
  then show ?thesis
    using routerPath_neq[of outputDir m]
    by (simp add: createSourceFiles_lookup sourceFiles_eq map_add_def split: option.splits)
qed

lemma set_update_allow:
  "set (AList.update k v al) \<subseteq> insert (k, v) (set al)"
  by (induction al) auto

lemma allowAll_keys:
  "fst ` set (allowAll ops m bucket) = fst ` set bucket \<union> (\<lambda>op. op @ m) ` set ops"
  unfolding allowAll_def
  by (induction ops arbitrary: bucket) (auto simp: dom_update)

lemma allowAll_values:
  "\<forall>e \<in> set bucket. snd e = ''allow'' \<Longrightarrow> \<forall>e \<in> set (allowAll ops m bucket). snd e = ''allow''"
  unfolding allowAll_def
proof (induction ops arbitrary: bucket)
  case Nil
  then show ?case by simp
next
  case (Cons op ops)
  have "\<forall>e \<in> set (AList.update (op @ m) ''allow'' bucket). snd e = ''allow''"
    using Cons.prems set_update_allow[of "op @ m" "''allow''" bucket] by auto
  then show ?case
    using Cons.IH by simp
qed

lemma allowAll_distinct:
  "distinct (map fst bucket) \<Longrightarrow> distinct (map fst (allowAll ops m bucket))"
  unfolding allowAll_def
  by (induction ops arbitrary: bucket) (simp_all add: distinct_update)

lemma bucket_set:
  assumes "fst ` set bucket = K" and "\<forall>e \<in> set bucket. snd e = v"
  shows "set bucket = {(k, v) | k. k \<in> K}"
proof (intro set_eqI iffI)
  fix e assume "e \<in> set bucket"
  then have "fst e \<in> K" "snd e = v" using assms by auto
  then show "e \<in> {(k, v) | k. k \<in> K}" by (cases e) simp
next
  fix e assume "e \<in> {(k, v) | k. k \<in> K}"
  then obtain k where e: "e = (k, v)" and "k \<in> K" by auto
  then obtain e' where e': "e' \<in> set bucket" "fst e' = k" using assms(1) by auto
  then have "snd e' = v" using assms(2) by simp
  then have "e' = e" using e e'(2) by (simp add: prod_eq_iff)
  then show "e \<in> set bucket" using e'(1) by simp
qed

lemma shieldLoop_keys:
  "fst ` set (query (shieldLoop mos sc))
     = fst ` set (query sc) \<union> {op @ model mo | op mo. op \<in> set queryOperations \<and> mo \<in> set mos}"
  "fst ` set (mutation (shieldLoop mos sc))
     = fst ` set (mutation sc) \<union> {op @ model mo | op mo. op \<in> set mutationOperations \<and> mo \<in> set mos}"
  "fst ` set (subscription (shieldLoop mos sc))
     = fst ` set (subscription sc)
       \<union> {op @ model mo | op mo. op \<in> set subscriptionOperations \<and> mo \<in> set mos}"
proof (induction mos arbitrary: sc)
  case Nil
  {
    case 1 show ?case by simp
  next
    case 2 show ?case by simp
  next
    case 3 show ?case by simp
  }
next
  case (Cons mo mos)
  {
    case 1 show ?case by (simp add: Cons.IH(1) allowAll_keys) blast
  next
    case 2 show ?case by (simp add: Cons.IH(2) allowAll_keys) blast
  next
    case 3 show ?case by (simp add: Cons.IH(3) allowAll_keys) blast
  }
qed

lemma allAllow_Nil: "allAllow []"
  by (simp add: allAllow_def)

lemma allAllow_allowAll: "allAllow bucket \<Longrightarrow> allAllow (allowAll ops m bucket)"
  unfolding allAllow_def by (rule allowAll_values)

lemma shieldLoop_query_values:
  "allAllow (query sc) \<Longrightarrow> allAllow (query (shieldLoop mos sc))"
  by (induction mos arbitrary: sc) (simp_all add: allAllow_allowAll)

lemma shieldLoop_mutation_values:
  "allAllow (mutation sc) \<Longrightarrow> allAllow (mutation (shieldLoop mos sc))"
  by (induction mos arbitrary: sc) (simp_all add: allAllow_allowAll)

lemma shieldLoop_subscription_values:
  "allAllow (subscription sc) \<Longrightarrow> allAllow (subscription (shieldLoop mos sc))"
  by (induction mos arbitrary: sc) (simp_all add: allAllow_allowAll)

lemma shieldLoop_query_distinct:
  "distinct (map fst (query sc)) \<Longrightarrow> distinct (map fst (query (shieldLoop mos sc)))"
  by (induction mos arbitrary: sc) (simp_all add: allowAll_distinct)

lemma shieldLoop_mutation_distinct:
  "distinct (map fst (mutation sc)) \<Longrightarrow> distinct (map fst (mutation (shieldLoop mos sc)))"
  by (induction mos arbitrary: sc) (simp_all add: allowAll_distinct)

lemma shieldLoop_subscription_distinct:
  "distinct (map fst (subscription sc)) \<Longrightarrow> distinct (map fst (subscription (shieldLoop mos sc)))"
  by (induction mos arbitrary: sc) (simp_all add: allowAll_distinct)

lemma bucketOfI:
  assumes "fst ` set bucket = {op @ model mo | op mo. op \<in> set ops \<and> mo \<in> set mos}"
    and "allAllow bucket"
    and "distinct (map fst bucket)"
  shows "bucketOf ops mos bucket"
proof -
  have "set bucket = {(k, ''allow'') | k. k \<in> {op @ model mo | op mo. op \<in> set ops \<and> mo \<in> set mos}}"
    using assms(1,2) unfolding allAllow_def by (rule bucket_set)
  also have "\<dots> = {(op @ model mo, ''allow'') | op mo. op \<in> set ops \<and> mo \<in> set mos}"
    by blast
  finally show ?thesis
    using assms(3) by (simp add: bucketOf_def)
qed

lemma shieldConfig_query:
  "bucketOf queryOperations (modelOperations dmmf) (query (shieldConfig dmmf))"
  unfolding shieldConfig_def
  by (rule bucketOfI)
     (simp_all add: shieldLoop_keys shieldLoop_query_values allAllow_Nil shieldLoop_query_distinct)

lemma shieldConfig_mutation:
  "bucketOf mutationOperations (modelOperations dmmf) (mutation (shieldConfig dmmf))"
  unfolding shieldConfig_def
  by (rule bucketOfI)
     (simp_all add: shieldLoop_keys shieldLoop_mutation_values allAllow_Nil shieldLoop_mutation_distinct)

lemma shieldConfig_subscription:
  "bucketOf subscriptionOperations (modelOperations dmmf) (subscription (shieldConfig dmmf))"
  unfolding shieldConfig_def
  by (rule bucketOfI)
     (simp_all add: shieldLoop_keys shieldLoop_subscription_values allAllow_Nil shieldLoop_subscription_distinct)

lemma modelRouter_procedures:
  "filter isProcedure (modelRouter env cfg mo)
     = map (dispatchProcedure env mo) (modelActions cfg mo)
       @ map (subscriptionProcedure mo) [''create'', ''update'', ''delete'']"
  by (simp add: modelRouter_def Let_def filter_map comp_def dispatchProcedure_def
      subscriptionProcedure_def subscriptionOperations_def)

lemma example_reads:
  "reads (exampleEnv (Some cfg) dmmf) exampleOptions ''out'' cfg dmmf"
  by (simp add: reads_def exampleEnv_def exampleOptions_def exampleClient_def)

lemma example_generate:
  "generate (exampleEnv (Some cfg) dmmf) exampleOptions proj
     = (effectLog ''out'' cfg,
        Inr (createSourceFiles proj
               (sourceFiles (exampleEnv (Some cfg) dmmf) exampleOptions cfg ''out'' dmmf)))"
  by (simp add: run_defs effectLog_def exampleEnv_def exampleOptions_def exampleClient_def)

section \<open>The claims\<close>

subsection \<open>C7: an invalid configuration\<close>

text \<open>
  C7. If the run configuration fails schema validation, \<^verbatim>\<open>generate\<close> throws before it
  acts on the host at all: the effect log is empty (the output directory is neither
  created nor cleared, no delegate runs, nothing is saved) and the result is an
  exception; when the output path itself parses, the exception is the error
  \<^verbatim>\<open>Invalid options passed\<close>.
\<close>

theorem invalid_config_aborts:
  assumes "safeParse env (config (generator options)) = None"
  shows "fst (generate env options proj) = []
       \<and> (\<exists>e. snd (generate env options proj) = Inl e)
       \<and> (\<forall>outputDir. parseEnvValue env (generatorOutput (generator options)) = Inr outputDir
            \<longrightarrow> generate env options proj = ([], Inl (Error ''Invalid options passed'')))"
  using assms by (auto simp: run_defs split: sum.splits)

theorem invalid_config_aborts_witness:
  "safeParse (exampleEnv None exampleSchema) (config (generator exampleOptions)) = None
   \<and> generate (exampleEnv None exampleSchema) exampleOptions emptyProject
       = ([], Inl (Error ''Invalid options passed''))"
proof -
  have h: "safeParse (exampleEnv None exampleSchema) (config (generator exampleOptions)) = None"
    by (simp add: exampleEnv_def)
  have p: "parseEnvValue (exampleEnv None exampleSchema) (generatorOutput (generator exampleOptions))
             = Inr ''out''"
    by (simp add: exampleEnv_def exampleOptions_def)
  show ?thesis
    using h p invalid_config_aborts [OF h, of emptyProject] by blast
qed

subsection \<open>C9: the policy-starter delegate\<close>

text \<open>
  C9. In a run that reaches its end, the policy-starter delegate
  (\<^verbatim>\<open>PrismaTrpcShieldGenerator\<close>) is in the effect log exactly when \<^verbatim>\<open>withShield\<close> is the
  boolean \<^verbatim>\<open>true\<close>, while the shield import of the bootstrap file and the policy file
  shield.ts are there whenever \<^verbatim>\<open>withShield\<close> is truthy. So a truthy \<^verbatim>\<open>withShield\<close> other
  than \<^verbatim>\<open>true\<close> (a path string) yields the import and the policy file without the
  delegate having run.
\<close>

theorem shield_delegate_strict:
  assumes "reads env options outputDir cfg dmmf"
    and "generate env options proj = (effs, Inr proj')"
  shows "((\<exists>p c. PrismaTrpcShieldGenerator p c \<in> set effs) \<longleftrightarrow> withShield cfg = JBool True)
       \<and> (truthy (withShield cfg) \<longrightarrow>
            proj' [outputDir, ''routers'', ''helpers'', ''createRouter.ts'']
              = Some [TRPCImport, ShieldImport (withShield cfg), BaseRouter, FormatText 2]
          \<and> proj' [outputDir, ''shield'', ''shield.ts'']
              = Some (shieldFile env options cfg outputDir dmmf))"
proof -
  have effs: "effs = effectLog outputDir cfg"
    and proj': "proj' = createSourceFiles proj (sourceFiles env options cfg outputDir dmmf)"
    using generate_reads [OF assms] by simp_all
  have "(\<exists>p c. PrismaTrpcShieldGenerator p c \<in> set effs) \<longleftrightarrow> withShield cfg = JBool True"
    unfolding effs by (auto simp: effectLog_def)
  moreover have "proj' [outputDir, ''routers'', ''helpers'', ''createRouter.ts'']
      = Some [TRPCImport, ShieldImport (withShield cfg), BaseRouter, FormatText 2]"
    if "truthy (withShield cfg)"
    unfolding proj' using that by (simp add: project_createRouter createRouter_def)
  moreover have "proj' [outputDir, ''shield'', ''shield.ts'']
      = Some (shieldFile env options cfg outputDir dmmf)"
    if "truthy (withShield cfg)"
    unfolding proj' using that by (simp add: project_shield)
  ultimately show ?thesis by blast
qed

theorem shield_delegate_strict_witness:
  "reads (exampleEnv (Some shieldByPath) exampleSchema) exampleOptions ''out'' shieldByPath exampleSchema
   \<and> generate (exampleEnv (Some shieldByPath) exampleSchema) exampleOptions emptyProject
       = ([Mkdir ''out'', RemoveDir ''out'' True, ProjectSave],
          Inr (createSourceFiles emptyProject
                 (sourceFiles (exampleEnv (Some shieldByPath) exampleSchema) exampleOptions
                    shieldByPath ''out'' exampleSchema)))
   \<and> truthy (withShield shieldByPath)
   \<and> withShield shieldByPath \<noteq> JBool True
   \<and> createSourceFiles emptyProject
         (sourceFiles (exampleEnv (Some shieldByPath) exampleSchema) exampleOptions
            shieldByPath ''out'' exampleSchema)
         [''out'', ''routers'', ''helpers'', ''createRouter.ts'']
       = Some [TRPCImport, ShieldImport (JStr ''./shield''), BaseRouter, FormatText 2]
   \<and> createSourceFiles emptyProject
         (sourceFiles (exampleEnv (Some shieldByPath) exampleSchema) exampleOptions
            shieldByPath ''out'' exampleSchema)
         [''out'', ''shield'', ''shield.ts'']
       = Some (shieldFile (exampleEnv (Some shieldByPath) exampleSchema) exampleOptions
                 shieldByPath ''out'' exampleSchema)"
proof -
  let ?env = "exampleEnv (Some shieldByPath) exampleSchema"
  have r: "reads ?env exampleOptions ''out'' shieldByPath exampleSchema"
    by (rule example_reads)
  have e: "effectLog ''out'' shieldByPath = [Mkdir ''out'', RemoveDir ''out'' True, ProjectSave]"
    by (simp add: effectLog_def shieldByPath_def exampleConfig_def)
  have g: "generate ?env exampleOptions emptyProject
      = ([Mkdir ''out'', RemoveDir ''out'' True, ProjectSave],
         Inr (createSourceFiles emptyProject
                (sourceFiles ?env exampleOptions shieldByPath ''out'' exampleSchema)))"
    using example_generate [of shieldByPath exampleSchema emptyProject] by (simp add: e)
  have t: "truthy (withShield shieldByPath)" "withShield shieldByPath \<noteq> JBool True"
    "withShield shieldByPath = JStr ''./shield''"
    by (simp_all add: shieldByPath_def exampleConfig_def)
  show ?thesis
    using r g t shield_delegate_strict [OF r g] by simp
qed

subsection \<open>C3: the permission matrix\<close>

text \<open>
  C3. When policy generation is enabled (\<^verbatim>\<open>withShield\<close> truthy) and the run reaches its
  end, the policy file holds the permission matrix \<open>shieldConfig dmmf\<close>, and for every
  model operation of the schema, whatever the allow-list \<^verbatim>\<open>generateModelActions\<close> holds:
  the query bucket consists exactly of the entries aggregate, findFirst, findMany,
  findUnique and groupBy followed by the model name, the mutation bucket exactly of
  createOne, deleteMany, deleteOne, updateMany, updateOne and upsertOne followed by the
  model name, the subscription bucket exactly of create, update and delete followed by
  the model name, each mapped to \<^verbatim>\<open>allow\<close>. Every visible entity is among these model
  operations.
\<close>

theorem permission_matrix:
  assumes "reads env options outputDir cfg dmmf"
    and "generate env options proj = (effs, Inr proj')"
    and "truthy (withShield cfg)"
  shows "proj' [outputDir, ''shield'', ''shield.ts'']
           = Some [ShieldHeader (getRelativePath env outputDir (contextPath cfg) False
                                   (schemaPath options)),
                   Permissions (shieldConfig dmmf), FormatText 2]
       \<and> bucketOf [''aggregate'', ''findFirst'', ''findMany'', ''findUnique'', ''groupBy'']
            (modelOperations dmmf) (query (shieldConfig dmmf))
       \<and> bucketOf [''createOne'', ''deleteMany'', ''deleteOne'', ''updateMany'', ''updateOne'',
                   ''upsertOne'']
            (modelOperations dmmf) (mutation (shieldConfig dmmf))
       \<and> bucketOf [''create'', ''update'', ''delete'']
            (modelOperations dmmf) (subscription (shieldConfig dmmf))"
proof -
  have "proj' = createSourceFiles proj (sourceFiles env options cfg outputDir dmmf)"
    using generate_reads(1) [OF assms(1,2)] .
  then have "proj' [outputDir, ''shield'', ''shield.ts'']
      = Some (shieldFile env options cfg outputDir dmmf)"
    using assms(3) by (simp add: project_shield)
  then show ?thesis
    using shieldConfig_query [of dmmf] shieldConfig_mutation [of dmmf]
      shieldConfig_subscription [of dmmf]
    by (simp add: shieldFile_def queryOperations_def mutationOperations_def
        subscriptionOperations_def)
qed

theorem permission_matrix_witness:
  "reads (exampleEnv (Some shieldOn) orderSchema) exampleOptions ''out'' shieldOn orderSchema
   \<and> generate (exampleEnv (Some shieldOn) orderSchema) exampleOptions emptyProject
       = (effectLog ''out'' shieldOn,
          Inr (createSourceFiles emptyProject
                 (sourceFiles (exampleEnv (Some shieldOn) orderSchema) exampleOptions
                    shieldOn ''out'' orderSchema)))
   \<and> truthy (withShield shieldOn)
   \<and> createSourceFiles emptyProject
         (sourceFiles (exampleEnv (Some shieldOn) orderSchema) exampleOptions
            shieldOn ''out'' orderSchema)
         [''out'', ''shield'', ''shield.ts'']
       = Some [ShieldHeader ''../context'', Permissions (shieldConfig orderSchema), FormatText 2]
   \<and> bucketOf [''createOne'', ''deleteMany'', ''deleteOne'', ''updateMany'', ''updateOne'',
               ''upsertOne'']
        [order] (mutation (shieldConfig orderSchema))
   \<and> shieldConfig orderSchema
       = \<lparr>query = [(''aggregateOrder'', ''allow''), (''findFirstOrder'', ''allow''),
                   (''findManyOrder'', ''allow''), (''findUniqueOrder'', ''allow''),
                   (''groupByOrder'', ''allow'')],
          mutation = [(''createOneOrder'', ''allow''), (''deleteManyOrder'', ''allow''),
                      (''deleteOneOrder'', ''allow''), (''updateManyOrder'', ''allow''),
                      (''updateOneOrder'', ''allow''), (''upsertOneOrder'', ''allow'')],
          subscription = [(''createOrder'', ''allow''), (''updateOrder'', ''allow''),
                          (''deleteOrder'', ''allow'')]\<rparr>"
proof -
  let ?env = "exampleEnv (Some shieldOn) orderSchema"
  have r: "reads ?env exampleOptions ''out'' shieldOn orderSchema"
    by (rule example_reads)
  have g: "generate ?env exampleOptions emptyProject
      = (effectLog ''out'' shieldOn,
         Inr (createSourceFiles emptyProject
                (sourceFiles ?env exampleOptions shieldOn ''out'' orderSchema)))"
    by (rule example_generate)
  have t: "truthy (withShield shieldOn)"
    by (simp add: shieldOn_def exampleConfig_def)
  have v: "getRelativePath ?env ''out'' (contextPath shieldOn) False (schemaPath exampleOptions)
      = ''../context''" "modelOperations orderSchema = [order]"
    by (simp_all add: exampleEnv_def shieldOn_def exampleConfig_def orderSchema_def)
  have m: "shieldConfig orderSchema
       = \<lparr>query = [(''aggregateOrder'', ''allow''), (''findFirstOrder'', ''allow''),
                   (''findManyOrder'', ''allow''), (''findUniqueOrder'', ''allow''),
                   (''groupByOrder'', ''allow'')],
          mutation = [(''createOneOrder'', ''allow''), (''deleteManyOrder'', ''allow''),
                      (''deleteOneOrder'', ''allow''), (''updateManyOrder'', ''allow''),
                      (''updateOneOrder'', ''allow''), (''upsertOneOrder'', ''allow'')],
          subscription = [(''createOrder'', ''allow''), (''updateOrder'', ''allow''),
                          (''deleteOrder'', ''allow'')]\<rparr>"
    by (simp add: shieldConfig_def orderSchema_def order_def allowAll_def queryOperations_def
        mutationOperations_def subscriptionOperations_def)
  show ?thesis
    using r g t m permission_matrix [OF r g t] unfolding v by blast
qed

lemma project_router_emitted:
  assumes "reads env options outputDir cfg dmmf"
    and "generate env options proj = (effs, Inr proj')"
    and "distinct (map model (modelOperations dmmf))"
    and "mo \<in> set (modelOperations dmmf)"
    and "model mo \<notin> set (resolveModelsComments env (models dmmf))"
    and "modelActions cfg mo \<noteq> []"
  shows "proj' [outputDir, ''routers'', model mo @ ''.router.ts''] = Some (modelRouter env cfg mo)"
proof -
  have "proj' = createSourceFiles proj (sourceFiles env options cfg outputDir dmmf)"
    using generate_reads(1) [OF assms(1,2)] .
  moreover have "emitted cfg (resolveModelsComments env (models dmmf)) mo"
    using assms(5,6) by (simp add: emitted_def)
  ultimately show ?thesis
    using project_router_Some [OF assms(3,4), of cfg env proj options outputDir]
    by (simp add: routerPath_def)
qed

subsection \<open>C6: the endpoints of a router file\<close>

text \<open>
  C6. For every entity that is not hidden and has at least one resolved operation (in a
  schema whose model names are distinct, in a run that reaches its end), the endpoints of
  its router file are, in file order: one dispatch endpoint for each resolved operation,
  in the order of the resolved operations, and then the three subscription endpoints
  create, update and delete. So every dispatch endpoint precedes every subscription
  endpoint.
\<close>

theorem router_endpoints:
  assumes "reads env options outputDir cfg dmmf"
    and "generate env options proj = (effs, Inr proj')"
    and "distinct (map model (modelOperations dmmf))"
    and "mo \<in> set (modelOperations dmmf)"
    and "model mo \<notin> set (resolveModelsComments env (models dmmf))"
    and "modelActions cfg mo \<noteq> []"
  shows "\<exists>f. proj' [outputDir, ''routers'', model mo @ ''.router.ts''] = Some f
           \<and> filter isProcedure f
               = map (dispatchProcedure env mo) (modelActions cfg mo)
                 @ [Procedure ''create'' '''' (model mo) ''subscription:create'' ''create'',
                    Procedure ''update'' '''' (model mo) ''subscription:update'' ''update'',
                    Procedure ''delete'' '''' (model mo) ''subscription:delete'' ''delete'']"
  using project_router_emitted [OF assms] modelRouter_procedures [of env cfg mo]
  by (simp add: subscriptionProcedure_def)

lemma person_modelActions:
  "modelActions allowSome person = [''findUnique'', ''createOne'', ''count'']"
  by (simp add: modelActions_def allowSome_def exampleConfig_def person_def)

lemma example_hidden:
  "resolveModelsComments (exampleEnv parsed dmmf) (models exampleSchema) = [''Secret'']"
  by (simp add: resolveModelsComments_def exampleEnv_def exampleSchema_def)

theorem router_endpoints_witness:
  "reads (exampleEnv (Some allowSome) exampleSchema) exampleOptions ''out'' allowSome exampleSchema
   \<and> generate (exampleEnv (Some allowSome) exampleSchema) exampleOptions emptyProject
       = (effectLog ''out'' allowSome,
          Inr (createSourceFiles emptyProject
                 (sourceFiles (exampleEnv (Some allowSome) exampleSchema) exampleOptions
                    allowSome ''out'' exampleSchema)))
   \<and> distinct (map model (modelOperations exampleSchema))
   \<and> person \<in> set (modelOperations exampleSchema)
   \<and> model person \<notin> set (resolveModelsComments (exampleEnv (Some allowSome) exampleSchema)
                            (models exampleSchema))
   \<and> modelActions allowSome person = [''findUnique'', ''createOne'', ''count'']
   \<and> (\<exists>f. createSourceFiles emptyProject
              (sourceFiles (exampleEnv (Some allowSome) exampleSchema) exampleOptions
                 allowSome ''out'' exampleSchema)
              [''out'', ''routers'', ''Person.router.ts''] = Some f
          \<and> filter isProcedure f
              = [Procedure ''findUniquePerson'' ''Person.findUnique'' ''Person''
                   ''findUnique'' ''findUnique'',
                 Procedure ''createOnePerson'' ''Person.createOne'' ''Person''
                   ''createOne'' ''createOne'',
                 Procedure ''count'' ''Person.count'' ''Person'' ''count'' ''count'',
                 Procedure ''create'' '''' ''Person'' ''subscription:create'' ''create'',
                 Procedure ''update'' '''' ''Person'' ''subscription:update'' ''update'',
                 Procedure ''delete'' '''' ''Person'' ''subscription:delete'' ''delete''])"
proof -
  let ?env = "exampleEnv (Some allowSome) exampleSchema"
  have r: "reads ?env exampleOptions ''out'' allowSome exampleSchema"
    by (rule example_reads)
  have g: "generate ?env exampleOptions emptyProject
      = (effectLog ''out'' allowSome,
         Inr (createSourceFiles emptyProject
                (sourceFiles ?env exampleOptions allowSome ''out'' exampleSchema)))"
    by (rule example_generate)
  have d: "distinct (map model (modelOperations exampleSchema))"
    by (simp add: exampleSchema_def person_def secret_def)
  have i: "person \<in> set (modelOperations exampleSchema)"
    by (simp add: exampleSchema_def)
  have h: "model person \<notin> set (resolveModelsComments ?env (models exampleSchema))"
    by (simp add: example_hidden person_def)
  have a: "modelActions allowSome person \<noteq> []"
    by (simp add: person_modelActions)
  have m: "model person = ''Person''"
    by (simp add: person_def)
  have p: "map (dispatchProcedure ?env person) [''findUnique'', ''createOne'', ''count'']
      = [Procedure ''findUniquePerson'' ''Person.findUnique'' ''Person''
           ''findUnique'' ''findUnique'',
         Procedure ''createOnePerson'' ''Person.createOne'' ''Person''
           ''createOne'' ''createOne'',
         Procedure ''count'' ''Person.count'' ''Person'' ''count'' ''count'']"
    by (simp add: dispatchProcedure_def Let_def opNameWithModel_def person_def exampleEnv_def)
  show ?thesis
    using r g d i h person_modelActions router_endpoints [OF r g d i h a]
    unfolding m person_modelActions p by simp
qed

lemma procedureName_dispatch:
  "procedureName (dispatchProcedure env mo opType) = opNameWithModel mo opType"
  by (simp add: dispatchProcedure_def Let_def)

subsection \<open>C8: the name of a dispatch endpoint\<close>

text \<open>
  C8. For every entity that gets a router file, and every resolved operation of it (the
  \<open>i\<close>-th, say), the \<open>i\<close>-th endpoint of the router file is named with the operation name
  the entity declares for that kind when there is one (the property holds a non-empty
  string), and with the operation kind itself otherwise (the property holds the empty
  string, \<^verbatim>\<open>null\<close> or \<^verbatim>\<open>undefined\<close>).
\<close>

theorem endpoint_names:
  assumes "reads env options outputDir cfg dmmf"
    and "generate env options proj = (effs, Inr proj')"
    and "distinct (map model (modelOperations dmmf))"
    and "mo \<in> set (modelOperations dmmf)"
    and "model mo \<notin> set (resolveModelsComments env (models dmmf))"
    and "modelActions cfg mo \<noteq> []"
  shows "\<exists>f. proj' [outputDir, ''routers'', model mo @ ''.router.ts''] = Some f
           \<and> length (modelActions cfg mo) \<le> length (filter isProcedure f)
           \<and> (\<forall>i < length (modelActions cfg mo).
                 (\<forall>n. map_of (operations mo) (modelActions cfg mo ! i) = Some (Some n) \<and> n \<noteq> []
                        \<longrightarrow> procedureName (filter isProcedure f ! i) = n)
               \<and> ((\<forall>n. map_of (operations mo) (modelActions cfg mo ! i) = Some (Some n)
                         \<longrightarrow> n = [])
                        \<longrightarrow> procedureName (filter isProcedure f ! i) = modelActions cfg mo ! i))"
proof -
  let ?f = "modelRouter env cfg mo"
  let ?acts = "modelActions cfg mo"
  have hasFile: "proj' [outputDir, ''routers'', model mo @ ''.router.ts''] = Some ?f"
    using assms by (rule project_router_emitted)
  have procs: "filter isProcedure ?f
      = map (dispatchProcedure env mo) ?acts
        @ map (subscriptionProcedure mo) [''create'', ''update'', ''delete'']"
    by (rule modelRouter_procedures)
  have len: "length ?acts \<le> length (filter isProcedure ?f)"
    by (simp add: procs)
  have nm: "procedureName (filter isProcedure ?f ! i) = opNameWithModel mo (?acts ! i)"
    if "i < length ?acts" for i
    using that by (simp add: procs nth_append procedureName_dispatch)
  have declared: "opNameWithModel mo k = n"
    if "map_of (operations mo) k = Some (Some n)" "n \<noteq> []" for k n
    using that by (simp add: opNameWithModel_def)
  have fallback: "opNameWithModel mo k = k"
    if "\<forall>n. map_of (operations mo) k = Some (Some n) \<longrightarrow> n = []" for k
    using that by (auto simp: opNameWithModel_def split: option.splits)
  show ?thesis
    using hasFile len nm declared fallback by (intro exI [of _ ?f]) auto
qed

theorem endpoint_names_witness:
  "reads (exampleEnv (Some allowSome) exampleSchema) exampleOptions ''out'' allowSome exampleSchema
   \<and> generate (exampleEnv (Some allowSome) exampleSchema) exampleOptions emptyProject
       = (effectLog ''out'' allowSome,
          Inr (createSourceFiles emptyProject
                 (sourceFiles (exampleEnv (Some allowSome) exampleSchema) exampleOptions
                    allowSome ''out'' exampleSchema)))
   \<and> modelActions allowSome person = [''findUnique'', ''createOne'', ''count'']
   \<and> map_of (operations person) ''findUnique'' = Some (Some ''findUniquePerson'')
   \<and> map_of (operations person) ''count'' = Some None
   \<and> (\<exists>f. createSourceFiles emptyProject
              (sourceFiles (exampleEnv (Some allowSome) exampleSchema) exampleOptions
                 allowSome ''out'' exampleSchema)
              [''out'', ''routers'', ''Person.router.ts''] = Some f
          \<and> procedureName (filter isProcedure f ! 0) = ''findUniquePerson''
          \<and> procedureName (filter isProcedure f ! 2) = ''count'')"
proof -
  let ?env = "exampleEnv (Some allowSome) exampleSchema"
  have r: "reads ?env exampleOptions ''out'' allowSome exampleSchema"
    by (rule example_reads)
  have g: "generate ?env exampleOptions emptyProject
      = (effectLog ''out'' allowSome,
         Inr (createSourceFiles emptyProject
                (sourceFiles ?env exampleOptions allowSome ''out'' exampleSchema)))"
    by (rule example_generate)
  have d: "distinct (map model (modelOperations exampleSchema))"
    by (simp add: exampleSchema_def person_def secret_def)
  have i: "person \<in> set (modelOperations exampleSchema)"
    by (simp add: exampleSchema_def)
  have h: "model person \<notin> set (resolveModelsComments ?env (models exampleSchema))"
    by (simp add: example_hidden person_def)
  have a: "modelActions allowSome person \<noteq> []"
    by (simp add: person_modelActions)
  have m: "model person = ''Person''"
    by (simp add: person_def)
  have o1: "map_of (operations person) ''findUnique'' = Some (Some ''findUniquePerson'')"
    and o2: "map_of (operations person) ''count'' = Some None"
    by (simp_all add: person_def)
  obtain f where f: "createSourceFiles emptyProject
        (sourceFiles ?env exampleOptions allowSome ''out'' exampleSchema)
        [''out'', ''routers'', ''Person.router.ts''] = Some f"
    and n: "\<forall>i < 3.
        (\<forall>n. map_of (operations person) ([''findUnique'', ''createOne'', ''count''] ! i)
                = Some (Some n) \<and> n \<noteq> []
              \<longrightarrow> procedureName (filter isProcedure f ! i) = n)
        \<and> ((\<forall>n. map_of (operations person) ([''findUnique'', ''createOne'', ''count''] ! i)
                   = Some (Some n) \<longrightarrow> n = [])
              \<longrightarrow> procedureName (filter isProcedure f ! i)
                  = [''findUnique'', ''createOne'', ''count''] ! i)"
    using endpoint_names [OF r g d i h a] unfolding m person_modelActions by auto
  have "procedureName (filter isProcedure f ! 0) = ''findUniquePerson''"
    using n [rule_format, of 0] o1 by simp
  moreover have "procedureName (filter isProcedure f ! 2) = ''count''"
    using n [rule_format, of 2] o2 by simp
  ultimately show ?thesis
    using r g person_modelActions o1 o2 f by blast
qed

subsection \<open>C1: an entity without resolved operations\<close>

text \<open>
  C1, as stated, fails. The schema has the single visible entity Order, which declares
  \<^verbatim>\<open>findMany\<close>, and the allow-list holds \<^verbatim>\<open>create\<close> only, so the resolved operation list
  of Order is empty. The run creates two source files, the bootstrap file and the
  aggregate router: there is no router file for Order, and the aggregate router has no
  entry.
\<close>

theorem empty_operations_counterexample:
  "model order \<notin> set (resolveModelsComments (exampleEnv (Some allowCreate) orderSchema)
                         (models orderSchema))
   \<and> modelActions allowCreate order = []
   \<and> generate (exampleEnv (Some allowCreate) orderSchema) exampleOptions emptyProject
       = ([Mkdir ''out'', RemoveDir ''out'' True, ProjectSave],
          Inr (createSourceFiles emptyProject
                 (sourceFiles (exampleEnv (Some allowCreate) orderSchema) exampleOptions
                    allowCreate ''out'' orderSchema)))
   \<and> sourceFiles (exampleEnv (Some allowCreate) orderSchema) exampleOptions
         allowCreate ''out'' orderSchema
       = [([''out'', ''routers'', ''helpers'', ''createRouter.ts''],
           [TRPCImport, BaseRouter, FormatText 2]),
          ([''out'', ''routers'', ''index.ts''],
           [CreateRouterImport False,
            Statements ''export const appRouter = t.router({})'',
            FormatText 2])]"
proof -
  have "effectLog ''out'' allowCreate = [Mkdir ''out'', RemoveDir ''out'' True, ProjectSave]"
    by (simp add: effectLog_def allowCreate_def exampleConfig_def)
  then have "generate (exampleEnv (Some allowCreate) orderSchema) exampleOptions emptyProject
       = ([Mkdir ''out'', RemoveDir ''out'' True, ProjectSave],
          Inr (createSourceFiles emptyProject
                 (sourceFiles (exampleEnv (Some allowCreate) orderSchema) exampleOptions
                    allowCreate ''out'' orderSchema)))"
    using example_generate [of allowCreate orderSchema emptyProject] by simp
  moreover have "model order \<notin> set (resolveModelsComments
      (exampleEnv (Some allowCreate) orderSchema) (models orderSchema))"
    by (simp add: resolveModelsComments_def orderSchema_def)
  moreover have "modelActions allowCreate order = []"
    by (simp add: modelActions_def allowCreate_def exampleConfig_def order_def)
  moreover have "sourceFiles (exampleEnv (Some allowCreate) orderSchema) exampleOptions
         allowCreate ''out'' orderSchema
       = [([''out'', ''routers'', ''helpers'', ''createRouter.ts''],
           [TRPCImport, BaseRouter, FormatText 2]),
          ([''out'', ''routers'', ''index.ts''],
           [CreateRouterImport False,
            Statements ''export const appRouter = t.router({})'',
            FormatText 2])]"
    by (simp add: sourceFiles_def resolveModelsComments_def orderSchema_def order_def
        modelActions_def allowCreate_def exampleConfig_def createRouter_def)
  ultimately show ?thesis by blast
qed

text \<open>
  C1, amended. In a run that reaches its end, on a schema whose model names are
  distinct: the aggregate router imports and lists exactly the entities that are not
  hidden and have a non-empty resolved operation list, in schema order; each of these
  gets its router file; and for every other entity (hidden, or visible with an empty
  resolved operation list) the run leaves the path of its router file as it was, so in a
  fresh project there is no such file.
\<close>

theorem router_emitted_iff:
  assumes "reads env options outputDir cfg dmmf"
    and "generate env options proj = (effs, Inr proj')"
    and "distinct (map model (modelOperations dmmf))"
  shows "proj' [outputDir, ''routers'', ''index.ts'']
           = Some (aggregateFile env
               (filter (\<lambda>mo. model mo \<notin> set (resolveModelsComments env (models dmmf))
                             \<and> modelActions cfg mo \<noteq> [])
                  (modelOperations dmmf)))
       \<and> (\<forall>mo \<in> set (modelOperations dmmf).
            if model mo \<notin> set (resolveModelsComments env (models dmmf))
               \<and> modelActions cfg mo \<noteq> []
            then proj' [outputDir, ''routers'', model mo @ ''.router.ts'']
                   = Some (modelRouter env cfg mo)
            else proj' [outputDir, ''routers'', model mo @ ''.router.ts'']
                   = proj [outputDir, ''routers'', model mo @ ''.router.ts''])"
proof -
  let ?hidden = "resolveModelsComments env (models dmmf)"
  have proj': "proj' = createSourceFiles proj (sourceFiles env options cfg outputDir dmmf)"
    using generate_reads(1) [OF assms(1,2)] .
  have em: "emitted cfg ?hidden = (\<lambda>mo. model mo \<notin> set ?hidden \<and> modelActions cfg mo \<noteq> [])"
    by (simp add: emitted_def fun_eq_iff)
  have "proj' [outputDir, ''routers'', ''index.ts'']
      = Some (aggregateFile env (filter (emitted cfg ?hidden) (modelOperations dmmf)))"
    unfolding proj' by (rule project_index)
  moreover have "proj' [outputDir, ''routers'', model mo @ ''.router.ts'']
      = Some (modelRouter env cfg mo)"
    if "mo \<in> set (modelOperations dmmf)" "emitted cfg ?hidden mo" for mo
    using project_router_Some [OF assms(3) that, of proj options outputDir]
    by (simp add: proj' routerPath_def)
  moreover have "proj' [outputDir, ''routers'', model mo @ ''.router.ts'']
      = proj [outputDir, ''routers'', model mo @ ''.router.ts'']"
    if "mo \<in> set (modelOperations dmmf)" "\<not> emitted cfg ?hidden mo" for mo
  proof -
    have "\<forall>mo' \<in> set (modelOperations dmmf). emitted cfg ?hidden mo' \<longrightarrow> model mo' \<noteq> model mo"
      using assms(3) that by (auto simp: distinct_map inj_on_def)
    then show ?thesis
      using project_router_None [of dmmf cfg env "model mo" proj options outputDir]
      by (simp add: proj' routerPath_def)
  qed
  ultimately show ?thesis
    unfolding em by simp
qed

theorem router_emitted_iff_witness:
  "reads (exampleEnv (Some allowCreate) orderSchema) exampleOptions ''out'' allowCreate orderSchema
   \<and> generate (exampleEnv (Some allowCreate) orderSchema) exampleOptions emptyProject
       = (effectLog ''out'' allowCreate,
          Inr (createSourceFiles emptyProject
                 (sourceFiles (exampleEnv (Some allowCreate) orderSchema) exampleOptions
                    allowCreate ''out'' orderSchema)))
   \<and> distinct (map model (modelOperations orderSchema))
   \<and> order \<in> set (modelOperations orderSchema)
   \<and> modelActions allowCreate order = []
   \<and> createSourceFiles emptyProject
         (sourceFiles (exampleEnv (Some allowCreate) orderSchema) exampleOptions
            allowCreate ''out'' orderSchema)
         [''out'', ''routers'', ''index.ts'']
       = Some [CreateRouterImport False,
               Statements ''export const appRouter = t.router({})'', FormatText 2]
   \<and> createSourceFiles emptyProject
         (sourceFiles (exampleEnv (Some allowCreate) orderSchema) exampleOptions
            allowCreate ''out'' orderSchema)
         [''out'', ''routers'', ''Order.router.ts'']
       = None"
proof -
  let ?env = "exampleEnv (Some allowCreate) orderSchema"
  have r: "reads ?env exampleOptions ''out'' allowCreate orderSchema"
    by (rule example_reads)
  have g: "generate ?env exampleOptions emptyProject
      = (effectLog ''out'' allowCreate,
         Inr (createSourceFiles emptyProject
                (sourceFiles ?env exampleOptions allowCreate ''out'' orderSchema)))"
    by (rule example_generate)
  have d: "distinct (map model (modelOperations orderSchema))"
    by (simp add: orderSchema_def)
  have i: "order \<in> set (modelOperations orderSchema)"
    by (simp add: orderSchema_def)
  have a: "modelActions allowCreate order = []"
    by (simp add: modelActions_def allowCreate_def exampleConfig_def order_def)
  have k: "filter (\<lambda>mo. model mo \<notin> set (resolveModelsComments ?env (models orderSchema))
                        \<and> modelActions allowCreate mo \<noteq> []) (modelOperations orderSchema) = []"
    using a by (simp add: orderSchema_def)
  have e: "emptyProject [''out'', ''routers'', ''Order.router.ts''] = None"
    by (simp add: emptyProject_def)
  have m: "model order = ''Order''"
    by (simp add: order_def)
  have "createSourceFiles emptyProject
         (sourceFiles ?env exampleOptions allowCreate ''out'' orderSchema)
         [''out'', ''routers'', ''index.ts'']
       = Some [CreateRouterImport False,
               Statements ''export const appRouter = t.router({})'', FormatText 2]"
    using router_emitted_iff [OF r g d] unfolding k by (simp add: aggregateFile_def)
  moreover have "createSourceFiles emptyProject
         (sourceFiles ?env exampleOptions allowCreate ''out'' orderSchema)
         [''out'', ''routers'', ''Order.router.ts'']
       = None"
    using router_emitted_iff [OF r g d] i a e m by auto
  ultimately show ?thesis
    using r g d i a by blast
qed

subsection \<open>C2: hidden entities\<close>

text \<open>
  C2 at a run with the visible entity Person and the hidden entity Secret, policy
  generation enabled. The run creates the bootstrap file, the aggregate router, the
  router of Person and the policy file: Secret has no router file. But the loop that
  fills the permission matrix (lines 211 to 242) does not consult \<^verbatim>\<open>hiddenModels\<close>, as
  the loop over the routers does (line 99), and every bucket of the policy file holds
  the entries of Secret.
\<close>

theorem hidden_entity_in_policy:
  "resolveModelsComments (exampleEnv (Some shieldAll) exampleSchema) (models exampleSchema)
     = [''Secret'']
   \<and> generate (exampleEnv (Some shieldAll) exampleSchema) exampleOptions emptyProject
       = ([Mkdir ''out'', RemoveDir ''out'' True,
           PrismaTrpcShieldGenerator [''out'', ''./shield''] ''../context'', ProjectSave],
          Inr (createSourceFiles emptyProject
                 (sourceFiles (exampleEnv (Some shieldAll) exampleSchema) exampleOptions
                    shieldAll ''out'' exampleSchema)))
   \<and> map fst (sourceFiles (exampleEnv (Some shieldAll) exampleSchema) exampleOptions
                 shieldAll ''out'' exampleSchema)
       = [[''out'', ''routers'', ''helpers'', ''createRouter.ts''],
          [''out'', ''routers'', ''index.ts''],
          [''out'', ''routers'', ''Person.router.ts''],
          [''out'', ''shield'', ''shield.ts'']]
   \<and> createSourceFiles emptyProject
         (sourceFiles (exampleEnv (Some shieldAll) exampleSchema) exampleOptions
            shieldAll ''out'' exampleSchema)
         [''out'', ''shield'', ''shield.ts'']
       = Some [ShieldHeader ''../context'',
               Permissions
                 \<lparr>query =
                    [(''aggregatePerson'', ''allow''), (''findFirstPerson'', ''allow''),
                     (''findManyPerson'', ''allow''), (''findUniquePerson'', ''allow''),
                     (''groupByPerson'', ''allow''),
                     (''aggregateSecret'', ''allow''), (''findFirstSecret'', ''allow''),
                     (''findManySecret'', ''allow''), (''findUniqueSecret'', ''allow''),
                     (''groupBySecret'', ''allow'')],
                  mutation =
                    [(''createOnePerson'', ''allow''), (''deleteManyPerson'', ''allow''),
                     (''deleteOnePerson'', ''allow''), (''updateManyPerson'', ''allow''),
                     (''updateOnePerson'', ''allow''), (''upsertOnePerson'', ''allow''),
                     (''createOneSecret'', ''allow''), (''deleteManySecret'', ''allow''),
                     (''deleteOneSecret'', ''allow''), (''updateManySecret'', ''allow''),
                     (''updateOneSecret'', ''allow''), (''upsertOneSecret'', ''allow'')],
                  subscription =
                    [(''createPerson'', ''allow''), (''updatePerson'', ''allow''),
                     (''deletePerson'', ''allow''),
                     (''createSecret'', ''allow''), (''updateSecret'', ''allow''),
                     (''deleteSecret'', ''allow'')]\<rparr>,
               FormatText 2]"
proof -
  let ?env = "exampleEnv (Some shieldAll) exampleSchema"
  have h: "resolveModelsComments ?env (models exampleSchema) = [''Secret'']"
    by (rule example_hidden)
  have "effectLog ''out'' shieldAll
      = [Mkdir ''out'', RemoveDir ''out'' True,
         PrismaTrpcShieldGenerator [''out'', ''./shield''] ''../context'', ProjectSave]"
    by (simp add: effectLog_def shieldAll_def exampleConfig_def)
  then have g: "generate ?env exampleOptions emptyProject
       = ([Mkdir ''out'', RemoveDir ''out'' True,
           PrismaTrpcShieldGenerator [''out'', ''./shield''] ''../context'', ProjectSave],
          Inr (createSourceFiles emptyProject
                 (sourceFiles ?env exampleOptions shieldAll ''out'' exampleSchema)))"
    using example_generate [of shieldAll exampleSchema emptyProject] by simp
  have t: "truthy (withShield shieldAll)"
    by (simp add: shieldAll_def exampleConfig_def)
  have p: "map fst (sourceFiles ?env exampleOptions shieldAll ''out'' exampleSchema)
       = [[''out'', ''routers'', ''helpers'', ''createRouter.ts''],
          [''out'', ''routers'', ''index.ts''],
          [''out'', ''routers'', ''Person.router.ts''],
          [''out'', ''shield'', ''shield.ts'']]"
    unfolding sourceFiles_eq h
    by (simp add: t emitted_def exampleSchema_def person_def secret_def modelActions_def
        shieldAll_def exampleConfig_def routerPath_def comp_def)
  have s: "createSourceFiles emptyProject
         (sourceFiles ?env exampleOptions shieldAll ''out'' exampleSchema)
         [''out'', ''shield'', ''shield.ts'']
       = Some (shieldFile ?env exampleOptions shieldAll ''out'' exampleSchema)"
    by (simp add: project_shield t)
  have "shieldFile ?env exampleOptions shieldAll ''out'' exampleSchema
       = [ShieldHeader ''../context'',
               Permissions
                 \<lparr>query =
                    [(''aggregatePerson'', ''allow''), (''findFirstPerson'', ''allow''),
                     (''findManyPerson'', ''allow''), (''findUniquePerson'', ''allow''),
                     (''groupByPerson'', ''allow''),
                     (''aggregateSecret'', ''allow''), (''findFirstSecret'', ''allow''),
                     (''findManySecret'', ''allow''), (''findUniqueSecret'', ''allow''),
                     (''groupBySecret'', ''allow'')],
                  mutation =
                    [(''createOnePerson'', ''allow''), (''deleteManyPerson'', ''allow''),
                     (''deleteOnePerson'', ''allow''), (''updateManyPerson'', ''allow''),
                     (''updateOnePerson'', ''allow''), (''upsertOnePerson'', ''allow''),
                     (''createOneSecret'', ''allow''), (''deleteManySecret'', ''allow''),
                     (''deleteOneSecret'', ''allow''), (''updateManySecret'', ''allow''),
                     (''updateOneSecret'', ''allow''), (''upsertOneSecret'', ''allow'')],
                  subscription =
                    [(''createPerson'', ''allow''), (''updatePerson'', ''allow''),
                     (''deletePerson'', ''allow''),
                     (''createSecret'', ''allow''), (''updateSecret'', ''allow''),
                     (''deleteSecret'', ''allow'')]\<rparr>,
               FormatText 2]"
    by (simp add: shieldFile_def shieldConfig_def exampleSchema_def person_def secret_def
        allowAll_def queryOperations_def mutationOperations_def subscriptionOperations_def
        exampleEnv_def shieldAll_def exampleConfig_def)
  then show ?thesis
    using h g p s by simp
qed

subsection \<open>C4: the allow-list test\<close>

text \<open>
  C4, as stated, fails. Person declares \<^verbatim>\<open>findUniqueOrThrow\<close>, whose base kind is
  \<^verbatim>\<open>findUnique\<close>, and the allow-list holds \<^verbatim>\<open>findUnique\<close>; the resolved operations of
  Person do not include \<^verbatim>\<open>findUniqueOrThrow\<close>.
\<close>

theorem or_throw_counterexample:
  "''findUnique'' \<in> set (generateModelActions allowFindUnique)
   \<and> ''findUniqueOrThrow'' \<in> fst ` set (operations person)
   \<and> replace ''OrThrow'' '''' ''findUniqueOrThrow'' = ''findUnique''
   \<and> modelActions allowFindUnique person = [''findUnique'']
   \<and> ''findUniqueOrThrow'' \<notin> set (modelActions allowFindUnique person)"
  by (simp add: modelActions_def allowFindUnique_def exampleConfig_def person_def)

text \<open>
  C4, amended. A declared operation is kept exactly when the allow-list holds its kind
  name with the first occurrence of \<^verbatim>\<open>One\<close> removed; \<^verbatim>\<open>OrThrow\<close> is not removed for this
  test. So \<^verbatim>\<open>createOne\<close> is tested as \<^verbatim>\<open>create\<close>, while \<^verbatim>\<open>findUniqueOrThrow\<close> and
  \<^verbatim>\<open>findFirstOrThrow\<close> are tested under their own names and are kept exactly when the
  allow-list holds the OrThrow kind itself. \<^verbatim>\<open>OrThrow\<close> is removed only afterwards, for the
  base kind that selects the input type of the endpoint.
\<close>

theorem allow_list_test:
  "(opType \<in> set (modelActions cfg mo)
      \<longleftrightarrow> opType \<in> fst ` set (operations mo)
          \<and> replace ''One'' '''' opType \<in> set (generateModelActions cfg))
   \<and> replace ''One'' '''' ''createOne'' = ''create''
   \<and> (''findUniqueOrThrow'' \<in> set (modelActions cfg mo)
      \<longleftrightarrow> ''findUniqueOrThrow'' \<in> fst ` set (operations mo)
          \<and> ''findUniqueOrThrow'' \<in> set (generateModelActions cfg))
   \<and> (''findFirstOrThrow'' \<in> set (modelActions cfg mo)
      \<longleftrightarrow> ''findFirstOrThrow'' \<in> fst ` set (operations mo)
          \<and> ''findFirstOrThrow'' \<in> set (generateModelActions cfg))
   \<and> dispatchProcedure env mo ''findUniqueOrThrow''
       = Procedure (opNameWithModel mo ''findUniqueOrThrow'')
           (getInputTypeByOpName env ''findUnique'' (model mo)) (model mo)
           ''findUniqueOrThrow'' ''findUnique''"
proof -
  have "replace ''One'' '''' ''findUniqueOrThrow'' = ''findUniqueOrThrow''"
    and "replace ''One'' '''' ''findFirstOrThrow'' = ''findFirstOrThrow''"
    and "replace ''OrThrow'' '''' ''findUniqueOrThrow'' = ''findUnique''"
    and "replace ''One'' '''' ''createOne'' = ''create''"
    by simp_all
  then show ?thesis
    by (auto simp: modelActions_def dispatchProcedure_def Let_def)
qed

theorem allow_list_test_witness:
  "(''findUniqueOrThrow'' \<in> set (modelActions allowFindUnique person)
      \<longleftrightarrow> ''findUniqueOrThrow'' \<in> fst ` set (operations person)
          \<and> ''findUniqueOrThrow'' \<in> set (generateModelActions allowFindUnique))
   \<and> ''findUniqueOrThrow'' \<in> fst ` set (operations person)
   \<and> ''findUniqueOrThrow'' \<notin> set (generateModelActions allowFindUnique)
   \<and> (''findUnique'' \<in> set (modelActions allowFindUnique person)
      \<longleftrightarrow> ''findUnique'' \<in> fst ` set (operations person)
          \<and> replace ''One'' '''' ''findUnique'' \<in> set (generateModelActions allowFindUnique))
   \<and> ''findUnique'' \<in> set (modelActions allowFindUnique person)"
proof -
  have "''findUniqueOrThrow'' \<in> fst ` set (operations person)"
    and "''findUnique'' \<in> fst ` set (operations person)"
    by (simp_all add: person_def)
  moreover have "''findUniqueOrThrow'' \<notin> set (generateModelActions allowFindUnique)"
    and "replace ''One'' '''' ''findUnique'' \<in> set (generateModelActions allowFindUnique)"
    by (simp_all add: allowFindUnique_def exampleConfig_def)
  ultimately show ?thesis
    using allow_list_test [of "''findUnique''" allowFindUnique person]
    by blast
qed

lemma person_lower: "toLowerCase ''Person'' = ''person''"
  by (simp add: toLowerCase_def toLowerCase_char_def)

lemma person_plural:
  "pluralize (exampleEnv parsed dmmf) ''person'' = ''people''"
  by (simp add: exampleEnv_def pluralize_en_def)

lemma example_kept:
  "filter (\<lambda>mo. model mo \<notin> set (resolveModelsComments (exampleEnv parsed dmmf)
                                     (models exampleSchema))
                \<and> modelActions allowSome mo \<noteq> [])
     (modelOperations exampleSchema) = [person]"
  unfolding example_hidden
  by (simp add: exampleSchema_def person_modelActions) (simp add: person_def secret_def)

subsection \<open>C5: the plural of the entity name\<close>

text \<open>
  C5, as stated, fails. For the entity Person, whose lower-cased name has the plural
  \<^verbatim>\<open>people\<close>, the aggregate router holds the entry \<^verbatim>\<open>person: peopleRouter\<close>: the key of
  the entity in the aggregate dispatch object is \<^verbatim>\<open>person\<close>, not the plural.
\<close>

theorem aggregate_key_counterexample:
  "pluralize (exampleEnv (Some allowSome) exampleSchema) (toLowerCase (model person)) = ''people''
   \<and> generate (exampleEnv (Some allowSome) exampleSchema) exampleOptions emptyProject
       = ([Mkdir ''out'', RemoveDir ''out'' True, ProjectSave],
          Inr (createSourceFiles emptyProject
                 (sourceFiles (exampleEnv (Some allowSome) exampleSchema) exampleOptions
                    allowSome ''out'' exampleSchema)))
   \<and> createSourceFiles emptyProject
         (sourceFiles (exampleEnv (Some allowSome) exampleSchema) exampleOptions
            allowSome ''out'' exampleSchema)
         [''out'', ''routers'', ''index.ts'']
       = Some [CreateRouterImport False,
               RouterImport ''people'' ''Person'',
               Statements ''export const appRouter = t.router({person: peopleRouter})'',
               FormatText 2]"
proof -
  let ?env = "exampleEnv (Some allowSome) exampleSchema"
  have "effectLog ''out'' allowSome = [Mkdir ''out'', RemoveDir ''out'' True, ProjectSave]"
    by (simp add: effectLog_def allowSome_def exampleConfig_def)
  then have g: "generate ?env exampleOptions emptyProject
       = ([Mkdir ''out'', RemoveDir ''out'' True, ProjectSave],
          Inr (createSourceFiles emptyProject
                 (sourceFiles ?env exampleOptions allowSome ''out'' exampleSchema)))"
    using example_generate [of allowSome exampleSchema emptyProject] by simp
  have k: "filter (emitted allowSome (resolveModelsComments ?env (models exampleSchema)))
      (modelOperations exampleSchema) = [person]"
    using example_kept [of "Some allowSome" exampleSchema] by (simp add: emitted_def [abs_def])
  have m: "model person = ''Person''"
    by (simp add: person_def)
  have "createSourceFiles emptyProject
         (sourceFiles ?env exampleOptions allowSome ''out'' exampleSchema)
         [''out'', ''routers'', ''index.ts'']
       = Some [CreateRouterImport False,
               RouterImport ''people'' ''Person'',
               Statements ''export const appRouter = t.router({person: peopleRouter})'',
               FormatText 2]"
    unfolding project_index k
    by (simp add: aggregateFile_def routerImport_def routerEntry_def m person_lower person_plural)
  moreover have "pluralize ?env (toLowerCase (model person)) = ''people''"
    by (simp add: m person_lower person_plural)
  ultimately show ?thesis
    using g by blast
qed

text \<open>
  C5, amended. In a run that reaches its end, for every generated entity (not hidden,
  with a resolved operation), with \<open>plural\<close> the result of \<^verbatim>\<open>pluralize\<close> on the lower-cased
  entity name: the aggregate router imports the router file of the entity under
  \<open>plural\<close> and maps the lower-cased entity name itself, as key, to the router
  \<^verbatim>\<open><plural>Router\<close>, which is the name the router file of the entity exports. (What
  \<^verbatim>\<open>pluralize\<close> returns is the business of that package.)
\<close>

theorem aggregate_naming:
  assumes "reads env options outputDir cfg dmmf"
    and "generate env options proj = (effs, Inr proj')"
    and "kept = filter (\<lambda>mo. model mo \<notin> set (resolveModelsComments env (models dmmf))
                              \<and> modelActions cfg mo \<noteq> [])
                  (modelOperations dmmf)"
  shows "proj' [outputDir, ''routers'', ''index.ts'']
           = Some ([CreateRouterImport False]
                   @ map (\<lambda>mo. RouterImport (pluralize env (toLowerCase (model mo))) (model mo))
                       kept
                   @ [Statements
                        (''export const appRouter = t.router({''
                         @ join '',''
                             (map (\<lambda>mo. toLowerCase (model mo) @ '': ''
                                         @ pluralize env (toLowerCase (model mo)) @ ''Router'')
                                kept)
                         @ ''})''),
                      FormatText 2])
       \<and> (\<forall>mo \<in> set kept.
            Statements (''export const '' @ pluralize env (toLowerCase (model mo))
                        @ ''Router = t.router({'')
              \<in> set (modelRouter env cfg mo))"
proof -
  let ?hidden = "resolveModelsComments env (models dmmf)"
  have proj': "proj' = createSourceFiles proj (sourceFiles env options cfg outputDir dmmf)"
    using generate_reads(1) [OF assms(1,2)] .
  have em: "emitted cfg ?hidden = (\<lambda>mo. model mo \<notin> set ?hidden \<and> modelActions cfg mo \<noteq> [])"
    by (simp add: emitted_def fun_eq_iff)
  have "proj' [outputDir, ''routers'', ''index.ts''] = Some (aggregateFile env kept)"
    unfolding proj' project_index em assms(3) ..
  moreover have "Statements (''export const '' @ pluralize env (toLowerCase (model mo))
      @ ''Router = t.router({'') \<in> set (modelRouter env cfg mo)" for mo
    by (simp add: modelRouter_def Let_def)
  ultimately show ?thesis
    unfolding aggregateFile_def routerImport_def [abs_def] routerEntry_def [abs_def]
    by simp
qed

theorem aggregate_naming_witness:
  "reads (exampleEnv (Some allowSome) exampleSchema) exampleOptions ''out'' allowSome exampleSchema
   \<and> generate (exampleEnv (Some allowSome) exampleSchema) exampleOptions emptyProject
       = (effectLog ''out'' allowSome,
          Inr (createSourceFiles emptyProject
                 (sourceFiles (exampleEnv (Some allowSome) exampleSchema) exampleOptions
                    allowSome ''out'' exampleSchema)))
   \<and> [person]
       = filter (\<lambda>mo. model mo \<notin> set (resolveModelsComments
                                         (exampleEnv (Some allowSome) exampleSchema)
                                         (models exampleSchema))
                      \<and> modelActions allowSome mo \<noteq> [])
           (modelOperations exampleSchema)
   \<and> createSourceFiles emptyProject
         (sourceFiles (exampleEnv (Some allowSome) exampleSchema) exampleOptions
            allowSome ''out'' exampleSchema)
         [''out'', ''routers'', ''index.ts'']
       = Some [CreateRouterImport False,
               RouterImport ''people'' ''Person'',
               Statements ''export const appRouter = t.router({person: peopleRouter})'',
               FormatText 2]
   \<and> Statements ''export const peopleRouter = t.router({''
       \<in> set (modelRouter (exampleEnv (Some allowSome) exampleSchema) allowSome person)"
proof -
  let ?env = "exampleEnv (Some allowSome) exampleSchema"
  have r: "reads ?env exampleOptions ''out'' allowSome exampleSchema"
    by (rule example_reads)
  have g: "generate ?env exampleOptions emptyProject
      = (effectLog ''out'' allowSome,
         Inr (createSourceFiles emptyProject
                (sourceFiles ?env exampleOptions allowSome ''out'' exampleSchema)))"
    by (rule example_generate)
  have k: "[person]
       = filter (\<lambda>mo. model mo \<notin> set (resolveModelsComments ?env (models exampleSchema))
                      \<and> modelActions allowSome mo \<noteq> [])
           (modelOperations exampleSchema)"
    using example_kept [of "Some allowSome" exampleSchema] by simp
  have m: "model person = ''Person''"
    by (simp add: person_def)
  note n = aggregate_naming [OF r g k]
  have "createSourceFiles emptyProject
         (sourceFiles ?env exampleOptions allowSome ''out'' exampleSchema)
         [''out'', ''routers'', ''index.ts'']
       = Some [CreateRouterImport False,
               RouterImport ''people'' ''Person'',
               Statements ''export const appRouter = t.router({person: peopleRouter})'',
               FormatText 2]"
    using n by (simp add: m person_lower person_plural)
  moreover have "Statements ''export const peopleRouter = t.router({''
       \<in> set (modelRouter ?env allowSome person)"
    using n by (simp add: m person_lower person_plural)
  ultimately show ?thesis
    using r g k by blast
qed

subsection \<open>C10: determinism\<close>

text \<open>
  C10. The collaborators of \<^verbatim>\<open>generate\<close> being functions of their arguments, the one thing
  a run can inherit from an earlier run in the same process is the content of the
  \<^verbatim>\<open>project\<close> singleton. It has no influence on what is generated: two runs with the same
  input and configuration that reach their end, from projects \<open>p\<close> and \<open>q\<close>, have the same
  effect log, and at every path either they leave the same source file, or both leave the
  path as they found it; and running again from the project the first run left changes
  nothing.
\<close>

theorem generate_deterministic:
  assumes "generate env options p = (effs, Inr p')"
    and "generate env options q = (effs', Inr q')"
  shows "effs' = effs
       \<and> (\<forall>k. p' k = q' k \<or> (p' k = p k \<and> q' k = q k))
       \<and> generate env options p' = (effs, Inr p')"
proof (rule generate_Inr_elim [OF assms(1)])
  fix outputDir cfg dmmf
  let ?files = "sourceFiles env options cfg outputDir dmmf"
  assume run: "\<And>x. generate env options x = (effs, Inr (createSourceFiles x ?files))"
  have p': "p' = createSourceFiles p ?files"
    using assms(1) run [of p] by simp
  have q': "q' = createSourceFiles q ?files" and effs: "effs' = effs"
    using assms(2) run [of q] by simp_all
  have same: "p' k = q' k \<or> (p' k = p k \<and> q' k = q k)" for k
    unfolding p' q' createSourceFiles_lookup by (cases "map_of (rev ?files) k") simp_all
  have "createSourceFiles p' ?files k = p' k" for k
    unfolding p' createSourceFiles_lookup by (cases "map_of (rev ?files) k") simp_all
  then have "createSourceFiles p' ?files = p'"
    by (rule ext)
  then have again: "generate env options p' = (effs, Inr p')"
    using run [of p'] by simp
  show ?thesis
  proof (intro conjI allI)
    show "effs' = effs" by (rule effs)
    show "p' k = q' k \<or> (p' k = p k \<and> q' k = q k)" for k by (rule same)
    show "generate env options p' = (effs, Inr p')" by (rule again)
  qed
qed

theorem generate_deterministic_witness:
  "generate (exampleEnv (Some allowSome) exampleSchema) exampleOptions emptyProject
       = (effectLog ''out'' allowSome,
          Inr (createSourceFiles emptyProject
                 (sourceFiles (exampleEnv (Some allowSome) exampleSchema) exampleOptions
                    allowSome ''out'' exampleSchema)))
   \<and> generate (exampleEnv (Some allowSome) exampleSchema) exampleOptions staleProject
       = (effectLog ''out'' allowSome,
          Inr (createSourceFiles staleProject
                 (sourceFiles (exampleEnv (Some allowSome) exampleSchema) exampleOptions
                    allowSome ''out'' exampleSchema)))
   \<and> staleProject [''out'', ''routers'', ''Person.router.ts''] = Some [FormatText 4]
   \<and> createSourceFiles emptyProject
         (sourceFiles (exampleEnv (Some allowSome) exampleSchema) exampleOptions
            allowSome ''out'' exampleSchema) [''out'', ''routers'', ''Person.router.ts'']
       = createSourceFiles staleProject
           (sourceFiles (exampleEnv (Some allowSome) exampleSchema) exampleOptions
              allowSome ''out'' exampleSchema) [''out'', ''routers'', ''Person.router.ts'']
   \<and> generate (exampleEnv (Some allowSome) exampleSchema) exampleOptions
         (createSourceFiles emptyProject
            (sourceFiles (exampleEnv (Some allowSome) exampleSchema) exampleOptions
               allowSome ''out'' exampleSchema))
       = (effectLog ''out'' allowSome,
          Inr (createSourceFiles emptyProject
                 (sourceFiles (exampleEnv (Some allowSome) exampleSchema) exampleOptions
                    allowSome ''out'' exampleSchema)))"
proof -
  let ?env = "exampleEnv (Some allowSome) exampleSchema"
  let ?files = "sourceFiles ?env exampleOptions allowSome ''out'' exampleSchema"
  let ?k = "[''out'', ''routers'', ''Person.router.ts'']"
  have g1: "generate ?env exampleOptions emptyProject
      = (effectLog ''out'' allowSome, Inr (createSourceFiles emptyProject ?files))"
    by (rule example_generate)
  have g2: "generate ?env exampleOptions staleProject
      = (effectLog ''out'' allowSome, Inr (createSourceFiles staleProject ?files))"
    by (rule example_generate)
  note d = generate_deterministic [OF g1 g2]
  have s: "staleProject ?k = Some [FormatText 4]"
    by (simp add: staleProject_def)
  have i: "person \<in> set (modelOperations exampleSchema)"
    and dm: "distinct (map model (modelOperations exampleSchema))"
    by (simp_all add: exampleSchema_def person_def secret_def)
  have em: "emitted allowSome (resolveModelsComments ?env (models exampleSchema)) person"
    unfolding example_hidden by (simp add: emitted_def person_modelActions) (simp add: person_def)
  have k: "routerPath ''out'' (model person) = ?k"
    by (simp add: routerPath_def person_def)
  have "createSourceFiles emptyProject ?files ?k = createSourceFiles staleProject ?files ?k"
    using project_router_Some [OF dm i em, of emptyProject exampleOptions "''out''"]
      project_router_Some [OF dm i em, of staleProject exampleOptions "''out''"]
    unfolding k by simp
  moreover have "generate ?env exampleOptions (createSourceFiles emptyProject ?files)
      = (effectLog ''out'' allowSome, Inr (createSourceFiles emptyProject ?files))"
    using d by (rule conjunct2 [THEN conjunct2])
  ultimately show ?thesis
    using g1 g2 s by (intro conjI)
qed

end
